theory Spec2Isabelle
  imports Main "HOL-Library.Word"
begin

section \<open>Shared types\<close>

text \<open>
  A \<^verbatim>\<open>uuid.UUID\<close> is a 16-byte array; its zero value is \<^verbatim>\<open>uuid.Nil\<close>.
  Go's \<^verbatim>\<open>int\<close> is modelled by \<^typ>\<open>int\<close>: every arithmetic operation of the
  engines that the theorems below depend on acts on values that were bounds-checked
  before (board coordinates) or are compared only.
  The engines exchange JSON; the model starts after decoding and stops before encoding,
  so the decoding errors of \<^verbatim>\<open>json.Unmarshal\<close> are outside it.
\<close>

type_synonym uuid = "128 word"

definition uuid_Nil :: uuid where
  "uuid_Nil = 0"

text \<open>
  The errors the engines return (\<^verbatim>\<open>errors.New\<close>, \<^verbatim>\<open>fmt.Errorf\<close>), and the two
  run-time panics their code can raise: an index out of range and a nil dereference.
\<close>

datatype error =
    NotPlayersTurn
  | GameAlreadyEnded
  | PlayerMustPlayIfPossible
  | PlayerDoesntHaveTile
  | TileDoesntMatchLeftEnd
  | TileDoesntMatchRightEnd
  | InvalidSide
  | InvalidPosition
  | NoPieceAtSource
  | CannotMoveOpponentsPiece
  | CannotCaptureOwnPiece
  | UnknownPieceType
  | InvalidPawnMove
  | RookMustMoveStraight
  | InvalidKnightMove
  | BishopMustMoveDiagonally
  | InvalidQueenMove
  | InvalidKingMove
  | PathIsBlocked
  | PanicIndexOutOfRange
  | PanicNilDereference

section \<open>DominoEngine (dominoes.go)\<close>

record DominoTile =
  Left :: int
  Right :: int

record DominoGameState =
  PlayerHands :: "uuid \<rightharpoonup> DominoTile list"
  Board :: "DominoTile list"
  BoneYard :: "DominoTile list"
  CurrentTurn :: uuid
  Player1ID :: uuid
  Player2ID :: uuid
  GameEnded :: bool
  Winner :: "uuid option"

record DominoMove =
  Tile :: DominoTile
  Side :: string
  Pass :: bool

text \<open>Reading a Go map at a missing key gives the zero value, here the nil slice.\<close>

definition hand_of :: "DominoGameState \<Rightarrow> uuid \<Rightarrow> DominoTile list" where
  "hand_of state playerID = (case PlayerHands state playerID of None \<Rightarrow> [] | Some h \<Rightarrow> h)"

definition generateDominoSet :: "DominoTile list" where
  "generateDominoSet =
     concat (map (\<lambda>i. map (\<lambda>j. \<lparr>Left = i, Right = j\<rparr>) [i..6]) [0..6])"

text \<open>
  \<^verbatim>\<open>rand.Shuffle(n, swap)\<close> of the Go standard library is the Fisher-Yates loop
  \<^verbatim>\<open>for i := n-1; i > 0; i-- { j := rand(i+1); swap(i, j) }\<close>. The random
  source is the parameter \<open>rnd\<close>: \<open>rnd i mod (i + 1)\<close> is the index drawn at step \<open>i\<close>.
\<close>

fun shuffle_loop :: "(nat \<Rightarrow> nat) \<Rightarrow> nat \<Rightarrow> 'a list \<Rightarrow> 'a list" where
  "shuffle_loop rnd 0 xs = xs"
| "shuffle_loop rnd (Suc i) xs =
     (let j = rnd (Suc i) mod (Suc i + 1)
      in shuffle_loop rnd i (xs[Suc i := xs ! j, j := xs ! Suc i]))"

definition rand_Shuffle :: "(nat \<Rightarrow> nat) \<Rightarrow> 'a list \<Rightarrow> 'a list" where
  "rand_Shuffle rnd xs = shuffle_loop rnd (length xs - 1) xs"

definition getHighestTileValue :: "DominoTile list \<Rightarrow> int" where
  "getHighestTileValue hand =
     fold (\<lambda>tile maxValue.
             let value = (if Left tile = Right tile then Left tile + Right tile + 100
                          else Left tile + Right tile)
             in if value > maxValue then value else maxValue)
          hand (- 1)"

definition determineStartingPlayer :: "DominoGameState \<Rightarrow> uuid" where
  "determineStartingPlayer state =
     (let p1Max = getHighestTileValue (hand_of state (Player1ID state));
          p2Max = getHighestTileValue (hand_of state (Player2ID state))
      in if p1Max \<ge> p2Max then Player1ID state else Player2ID state)"

text \<open>One round of the dealing loop of \<^verbatim>\<open>Initialize\<close>, for the loop index \<open>i\<close>.\<close>

definition deal_round :: "DominoTile list \<Rightarrow> nat \<Rightarrow> DominoGameState \<Rightarrow> DominoGameState" where
  "deal_round shuffledTiles i gameState =
     (let g1 = gameState\<lparr>PlayerHands := (PlayerHands gameState)
                 (Player1ID gameState \<mapsto> hand_of gameState (Player1ID gameState) @ [shuffledTiles ! i])\<rparr>
      in g1\<lparr>PlayerHands := (PlayerHands g1)
                 (Player2ID g1 \<mapsto> hand_of g1 (Player2ID g1) @ [shuffledTiles ! (i + 7)])\<rparr>)"

text \<open>
  \<^verbatim>\<open>Initialize\<close> builds the state with a struct literal that sets neither
  \<^verbatim>\<open>Player1ID\<close> nor \<^verbatim>\<open>Player2ID\<close> nor \<^verbatim>\<open>CurrentTurn\<close>, so all three hold
  the zero value when the dealing loop runs. Slicing \<^verbatim>\<open>shuffledTiles[14:]\<close> panics on
  a slice shorter than 14.
\<close>

definition DominoEngine_Initialize :: "(nat \<Rightarrow> nat) \<Rightarrow> error + DominoGameState" where
  "DominoEngine_Initialize rnd =
     (let tiles = generateDominoSet;
          shuffledTiles = rand_Shuffle rnd tiles
      in if length shuffledTiles < 14 then Inl PanicIndexOutOfRange
         else
           let gameState = \<lparr>PlayerHands = Map.empty, Board = [], BoneYard = drop 14 shuffledTiles,
                            CurrentTurn = uuid_Nil, Player1ID = uuid_Nil, Player2ID = uuid_Nil,
                            GameEnded = False, Winner = None\<rparr>;
               dealt = fold (deal_round shuffledTiles) [0..<7] gameState
           in Inr (dealt\<lparr>CurrentTurn := determineStartingPlayer dealt\<rparr>))"

definition tileMatches :: "DominoTile \<Rightarrow> DominoTile \<Rightarrow> bool" where
  "tileMatches tile wanted \<longleftrightarrow>
     (Left tile = Left wanted \<and> Right tile = Right wanted) \<or>
     (Left tile = Right wanted \<and> Right tile = Left wanted)"

definition canPlayerPlay :: "DominoGameState \<Rightarrow> uuid \<Rightarrow> bool" where
  "canPlayerPlay state playerID =
     (case Board state of
        [] \<Rightarrow> True
      | b0 # rest \<Rightarrow>
          (let playerHand = hand_of state playerID;
               leftEnd = Left b0;
               rightEnd = Right (last (b0 # rest))
           in list_ex (\<lambda>tile. Left tile = leftEnd \<or> Right tile = leftEnd \<or>
                               Left tile = rightEnd \<or> Right tile = rightEnd) playerHand))"

text \<open>\<^verbatim>\<open>board[0]\<close> and \<^verbatim>\<open>board[len(board)-1]\<close> panic on an empty board.\<close>

definition validateTilePlacement :: "DominoTile list \<Rightarrow> DominoTile \<Rightarrow> string \<Rightarrow> error option" where
  "validateTilePlacement board tile side =
     (if side = ''left'' then
        (case board of
           [] \<Rightarrow> Some PanicIndexOutOfRange
         | b0 # rest \<Rightarrow>
             (let leftEnd = Left b0
              in if Left tile \<noteq> leftEnd \<and> Right tile \<noteq> leftEnd
                 then Some TileDoesntMatchLeftEnd else None))
      else if side = ''right'' then
        (case board of
           [] \<Rightarrow> Some PanicIndexOutOfRange
         | b0 # rest \<Rightarrow>
             (let rightEnd = Right (last (b0 # rest))
              in if Left tile \<noteq> rightEnd \<and> Right tile \<noteq> rightEnd
                 then Some TileDoesntMatchRightEnd else None))
      else Some InvalidSide)"

definition DominoEngine_ValidateMove ::
    "DominoGameState \<Rightarrow> DominoMove \<Rightarrow> uuid \<Rightarrow> error option" where
  "DominoEngine_ValidateMove state domMove playerID =
     (if CurrentTurn state \<noteq> playerID then Some NotPlayersTurn
      else if GameEnded state then Some GameAlreadyEnded
      else if Pass domMove then
        (if canPlayerPlay state playerID then Some PlayerMustPlayIfPossible else None)
      else if \<not> list_ex (\<lambda>tile. tileMatches tile (Tile domMove)) (hand_of state playerID)
        then Some PlayerDoesntHaveTile
      else if length (Board state) = 0 then None
      else validateTilePlacement (Board state) (Tile domMove) (Side domMove))"

definition placeTileOnBoard ::
    "DominoTile list \<Rightarrow> DominoTile \<Rightarrow> string \<Rightarrow> error + DominoTile list" where
  "placeTileOnBoard board tile side =
     (case board of
        [] \<Rightarrow> Inl PanicIndexOutOfRange
      | b0 # rest \<Rightarrow>
          (if side = ''left'' then
             (let leftEnd = Left b0
              in if Right tile = leftEnd then Inr ([tile] @ board)
                 else Inr ([\<lparr>Left = Right tile, Right = Left tile\<rparr>] @ board))
           else
             (let rightEnd = Right (last (b0 # rest))
              in if Left tile = rightEnd then Inr (board @ [tile])
                 else Inr (board @ [\<lparr>Left = Right tile, Right = Left tile\<rparr>]))))"

definition getOtherPlayer :: "DominoGameState \<Rightarrow> uuid \<Rightarrow> uuid" where
  "getOtherPlayer state playerID =
     (if playerID = Player1ID state then Player2ID state else Player1ID state)"

definition calculateHandScore :: "DominoTile list \<Rightarrow> int" where
  "calculateHandScore hand = fold (\<lambda>tile score. score + (Left tile + Right tile)) hand 0"

definition determineWinnerByScore :: "DominoGameState \<Rightarrow> uuid option" where
  "determineWinnerByScore state =
     (let p1Score = calculateHandScore (hand_of state (Player1ID state));
          p2Score = calculateHandScore (hand_of state (Player2ID state))
      in if p1Score < p2Score then Some (Player1ID state)
         else if p2Score < p1Score then Some (Player2ID state)
         else None)"

text \<open>
  The removal loop of \<^verbatim>\<open>ApplyMove\<close>: the first tile of the hand that matches the
  move's tile in either orientation is cut out; \<open>None\<close> when the loop ends with no match
  (the map entry is then left as it was).
\<close>

fun removeFirstMatch :: "DominoTile list \<Rightarrow> DominoTile \<Rightarrow> DominoTile list option" where
  "removeFirstMatch [] wanted = None"
| "removeFirstMatch (tile # rest) wanted =
     (if tileMatches tile wanted then Some rest
      else map_option (\<lambda>r. tile # r) (removeFirstMatch rest wanted))"

definition DominoEngine_ApplyMove ::
    "DominoGameState \<Rightarrow> DominoMove \<Rightarrow> uuid \<Rightarrow> error + DominoGameState" where
  "DominoEngine_ApplyMove state domMove playerID =
     (if Pass domMove then
        (let s1 = state\<lparr>CurrentTurn := getOtherPlayer state playerID\<rparr>
         in if \<not> canPlayerPlay s1 (CurrentTurn s1)
            then (let s2 = s1\<lparr>GameEnded := True\<rparr>
                  in Inr (s2\<lparr>Winner := determineWinnerByScore s2\<rparr>))
            else Inr s1)
      else
        (let s1 = (case removeFirstMatch (hand_of state playerID) (Tile domMove) of
                     None \<Rightarrow> state
                   | Some h \<Rightarrow> state\<lparr>PlayerHands := (PlayerHands state)(playerID \<mapsto> h)\<rparr>)
         in case (if length (Board s1) = 0 then Inr (Board s1 @ [Tile domMove])
                  else placeTileOnBoard (Board s1) (Tile domMove) (Side domMove)) of
              Inl e \<Rightarrow> Inl e
            | Inr b \<Rightarrow>
                (let s2 = s1\<lparr>Board := b\<rparr>
                 in if length (hand_of s2 playerID) = 0
                    then Inr (s2\<lparr>GameEnded := True, Winner := Some playerID\<rparr>)
                    else Inr (s2\<lparr>CurrentTurn := getOtherPlayer s2 playerID\<rparr>))))"

text \<open>
  \<^verbatim>\<open>GetPossibleMoves\<close>; the pass move is the struct literal \<^verbatim>\<open>DominoMove{Pass: true}\<close>,
  whose tile and side hold zero values. \<^verbatim>\<open>validateTilePlacement\<close> is called on a
  non-empty board only.
\<close>

definition DominoEngine_GetPossibleMoves :: "DominoGameState \<Rightarrow> uuid \<Rightarrow> DominoMove list" where
  "DominoEngine_GetPossibleMoves state playerID =
     (let playerHand = hand_of state playerID
      in if length (Board state) = 0
         then map (\<lambda>tile. \<lparr>Tile = tile, Side = ''left'', Pass = False\<rparr>) playerHand
         else
           (let possibleMoves =
                  concat (map (\<lambda>tile.
                     (if validateTilePlacement (Board state) tile ''left'' = None
                      then [\<lparr>Tile = tile, Side = ''left'', Pass = False\<rparr>] else []) @
                     (if validateTilePlacement (Board state) tile ''right'' = None
                      then [\<lparr>Tile = tile, Side = ''right'', Pass = False\<rparr>] else []))
                   playerHand)
            in if length possibleMoves = 0
               then possibleMoves @ [\<lparr>Tile = \<lparr>Left = 0, Right = 0\<rparr>, Side = [], Pass = True\<rparr>]
               else possibleMoves))"

section \<open>ChessEngine (chess engine source of package game)\<close>

text \<open>
  The source of the chess engine is the file of package \<^verbatim>\<open>game\<close> that declares
  \<^verbatim>\<open>ChessEngine\<close>; it is stored after the text of \<^verbatim>\<open>src/backend/README.md\<close>
  (lines 308 to 884).
\<close>

record ChessPiece =
  Type :: string
  Color :: string

record ChessPosition =
  Row :: int
  Col :: int

text \<open>
  The board is the fixed-size array \<^verbatim>\<open>[8][8]*ChessPiece\<close>: a cell is nil or points to a
  piece. It is modelled as a function on coordinate pairs of which only the 64 cells with
  both coordinates in \<open>0..7\<close> are the array; an index outside that range panics in Go. The
  model writes that panic out wherever no bounds check precedes the access. A state comes
  fresh from \<^verbatim>\<open>json.Unmarshal\<close>, so no two cells share a piece object.
\<close>

type_synonym chess_board = "int \<times> int \<Rightarrow> ChessPiece option"

record ChessGameState =
  cBoard :: chess_board
  cCurrentTurn :: string
  cPlayer1ID :: uuid
  cPlayer2ID :: uuid
  WhitePlayer :: uuid
  BlackPlayer :: uuid
  cGameEnded :: bool
  cWinner :: "uuid option"
  Check :: bool
  Checkmate :: bool
  Stalemate :: bool
  WhiteKingSideCastle :: bool
  WhiteQueenSideCastle :: bool
  BlackKingSideCastle :: bool
  BlackQueenSideCastle :: bool
  EnPassantTarget :: "ChessPosition option"
  MoveCount :: int

record ChessMove =
  From :: ChessPosition
  To :: ChessPosition
  Promotion :: string
  Castling :: string

definition abs_int :: "int \<Rightarrow> int" where
  "abs_int x = (if x < 0 then - x else x)"

definition isValidPosition :: "ChessPosition \<Rightarrow> bool" where
  "isValidPosition pos \<longleftrightarrow> Row pos \<ge> 0 \<and> Row pos < 8 \<and> Col pos \<ge> 0 \<and> Col pos < 8"

definition at :: "ChessPosition \<Rightarrow> int \<times> int" where
  "at pos = (Row pos, Col pos)"

definition all_cells :: "(int \<times> int) list" where
  "all_cells = concat (map (\<lambda>row. map (\<lambda>col. (row, col)) [0..7]) [0..7])"

definition setupInitialBoard :: "ChessGameState \<Rightarrow> ChessGameState" where
  "setupInitialBoard state =
     (let b0 = (\<lambda>cell. None);
          b1 = fold (\<lambda>i b. b((1, i) := Some \<lparr>Type = ''pawn'', Color = ''black''\<rparr>,
                              (6, i) := Some \<lparr>Type = ''pawn'', Color = ''white''\<rparr>)) [0..7] b0;
          pieceOrder = [''rook'', ''knight'', ''bishop'', ''queen'', ''king'', ''bishop'',
                        ''knight'', ''rook''];
          b2 = fold (\<lambda>(i, pieceType) b.
                        b((0, i) := Some \<lparr>Type = pieceType, Color = ''black''\<rparr>,
                          (7, i) := Some \<lparr>Type = pieceType, Color = ''white''\<rparr>))
                    (zip [0..7] pieceOrder) b1
      in state\<lparr>cBoard := b2\<rparr>)"

text \<open>The struct literal of \<^verbatim>\<open>Initialize\<close> leaves every player identifier at its zero value.\<close>

definition ChessEngine_Initialize :: ChessGameState where
  "ChessEngine_Initialize =
     setupInitialBoard
       \<lparr>cBoard = (\<lambda>cell. None), cCurrentTurn = ''white'',
        cPlayer1ID = uuid_Nil, cPlayer2ID = uuid_Nil, WhitePlayer = uuid_Nil, BlackPlayer = uuid_Nil,
        cGameEnded = False, cWinner = None, Check = False, Checkmate = False, Stalemate = False,
        WhiteKingSideCastle = True, WhiteQueenSideCastle = True,
        BlackKingSideCastle = True, BlackQueenSideCastle = True,
        EnPassantTarget = None, MoveCount = 0\<rparr>"

definition getPlayerColor :: "ChessGameState \<Rightarrow> uuid \<Rightarrow> string" where
  "getPlayerColor state playerID = (if playerID = WhitePlayer state then ''white'' else ''black'')"

text \<open>
  \<^verbatim>\<open>validatePawnMove\<close> is reached through \<^verbatim>\<open>validateChessMove\<close> only, after both
  endpoints passed \<^verbatim>\<open>isValidPosition\<close>; the cell one step ahead of the start row is then
  on the board as well.
\<close>

definition validatePawnMove :: "ChessGameState \<Rightarrow> ChessMove \<Rightarrow> string \<Rightarrow> error option" where
  "validatePawnMove state move color =
     (let direction = (if color = ''black'' then - 1 else 1);
          startRow = (if color = ''black'' then 1 else (6::int));
          rowDiff = Row (To move) - Row (From move);
          colDiff = Col (To move) - Col (From move)
      in if colDiff = 0 \<and> rowDiff = direction \<and> cBoard state (at (To move)) = None then None
         else if colDiff = 0 \<and> rowDiff = 2 * direction \<and> Row (From move) = startRow \<and>
                 cBoard state (at (To move)) = None \<and>
                 cBoard state (Row (From move) + direction, Col (From move)) = None then None
         else if abs_int colDiff = 1 \<and> rowDiff = direction \<and>
                 (case cBoard state (at (To move)) of
                    None \<Rightarrow> False
                  | Some targetPiece \<Rightarrow> Color targetPiece \<noteq> color) then None
         else if abs_int colDiff = 1 \<and> rowDiff = direction \<and>
                 (case EnPassantTarget state of
                    None \<Rightarrow> False
                  | Some ep \<Rightarrow> Row (To move) = Row ep \<and> Col (To move) = Col ep) then None
         else Some InvalidPawnMove)"

text \<open>
  The loop of \<^verbatim>\<open>checkPathClear\<close>. After \<open>i - 1\<close> rounds the cursor stands at
  \<open>from + i * (rowDir, colDir)\<close>; the loop starts with \<open>i = 1\<close>. Reading a cell off the
  board panics.
\<close>

definition rowDir_of :: "ChessPosition \<Rightarrow> ChessPosition \<Rightarrow> int" where
  "rowDir_of from to = (if Row to > Row from then 1 else if Row to < Row from then - 1 else 0)"

definition colDir_of :: "ChessPosition \<Rightarrow> ChessPosition \<Rightarrow> int" where
  "colDir_of from to = (if Col to > Col from then 1 else if Col to < Col from then - 1 else 0)"

function pathLoop :: "chess_board \<Rightarrow> ChessPosition \<Rightarrow> ChessPosition \<Rightarrow> int \<Rightarrow> error option" where
  "pathLoop board from to i =
     (let currentRow = Row from + i * rowDir_of from to;
          currentCol = Col from + i * colDir_of from to
      in if currentRow \<noteq> Row to \<or> currentCol \<noteq> Col to then
           (if \<not> (0 \<le> currentRow \<and> currentRow < 8 \<and> 0 \<le> currentCol \<and> currentCol < 8)
              then Some PanicIndexOutOfRange
            else if board (currentRow, currentCol) \<noteq> None then Some PathIsBlocked
            else pathLoop board from to (i + 1))
         else None)"
  by pat_completeness auto
termination
  by (relation "measure (\<lambda>(board, from, to, i).
        if rowDir_of from to = 1 then nat (8 - Row from - i)
        else if rowDir_of from to = - 1 then nat (Row from - i + 1)
        else if colDir_of from to = 1 then nat (8 - Col from - i)
        else if colDir_of from to = - 1 then nat (Col from - i + 1)
        else 0)")
     (auto simp: rowDir_of_def colDir_of_def split: if_splits)

declare pathLoop.simps [simp del]

definition checkPathClear :: "ChessGameState \<Rightarrow> ChessPosition \<Rightarrow> ChessPosition \<Rightarrow> error option" where
  "checkPathClear state from to = pathLoop (cBoard state) from to 1"

definition validateRookMove :: "ChessGameState \<Rightarrow> ChessMove \<Rightarrow> error option" where
  "validateRookMove state move =
     (if Row (From move) \<noteq> Row (To move) \<and> Col (From move) \<noteq> Col (To move)
      then Some RookMustMoveStraight
      else checkPathClear state (From move) (To move))"

definition validateKnightMove :: "ChessMove \<Rightarrow> error option" where
  "validateKnightMove move =
     (let rowDiff = abs_int (Row (To move) - Row (From move));
          colDiff = abs_int (Col (To move) - Col (From move))
      in if (rowDiff = 2 \<and> colDiff = 1) \<or> (rowDiff = 1 \<and> colDiff = 2) then None
         else Some InvalidKnightMove)"

definition validateBishopMove :: "ChessGameState \<Rightarrow> ChessMove \<Rightarrow> error option" where
  "validateBishopMove state move =
     (let rowDiff = abs_int (Row (To move) - Row (From move));
          colDiff = abs_int (Col (To move) - Col (From move))
      in if rowDiff \<noteq> colDiff then Some BishopMustMoveDiagonally
         else checkPathClear state (From move) (To move))"

definition validateQueenMove :: "ChessGameState \<Rightarrow> ChessMove \<Rightarrow> error option" where
  "validateQueenMove state move =
     (if validateRookMove state move = None \<or> validateBishopMove state move = None then None
      else Some InvalidQueenMove)"

definition validateKingMove :: "ChessMove \<Rightarrow> error option" where
  "validateKingMove move =
     (let rowDiff = abs_int (Row (To move) - Row (From move));
          colDiff = abs_int (Col (To move) - Col (From move))
      in if rowDiff \<le> 1 \<and> colDiff \<le> 1 \<and> (rowDiff \<noteq> 0 \<or> colDiff \<noteq> 0) then None
         else Some InvalidKingMove)"

definition validatePieceMove :: "ChessGameState \<Rightarrow> ChessMove \<Rightarrow> ChessPiece \<Rightarrow> error option" where
  "validatePieceMove state move piece =
     (if Type piece = ''pawn'' then validatePawnMove state move (Color piece)
      else if Type piece = ''rook'' then validateRookMove state move
      else if Type piece = ''knight'' then validateKnightMove move
      else if Type piece = ''bishop'' then validateBishopMove state move
      else if Type piece = ''queen'' then validateQueenMove state move
      else if Type piece = ''king'' then validateKingMove move
      else Some UnknownPieceType)"

definition validateChessMove :: "ChessGameState \<Rightarrow> ChessMove \<Rightarrow> string \<Rightarrow> error option" where
  "validateChessMove state move playerColor =
     (if \<not> isValidPosition (From move) \<or> \<not> isValidPosition (To move) then Some InvalidPosition
      else case cBoard state (at (From move)) of
             None \<Rightarrow> Some NoPieceAtSource
           | Some fromPiece \<Rightarrow>
               if Color fromPiece \<noteq> playerColor then Some CannotMoveOpponentsPiece
               else if (case cBoard state (at (To move)) of
                          None \<Rightarrow> False
                        | Some toPiece \<Rightarrow> Color toPiece = playerColor)
                 then Some CannotCaptureOwnPiece
               else validatePieceMove state move fromPiece)"

definition ChessEngine_ValidateMove ::
    "ChessGameState \<Rightarrow> ChessMove \<Rightarrow> uuid \<Rightarrow> error option" where
  "ChessEngine_ValidateMove state chessMove playerID =
     (let playerColor = getPlayerColor state playerID
      in if playerColor \<noteq> cCurrentTurn state then Some NotPlayersTurn
         else if cGameEnded state then Some GameAlreadyEnded
         else validateChessMove state chessMove playerColor)"

text \<open>
  \<^verbatim>\<open>applyChessMove\<close> indexes the board with the move's coordinates unchecked and then
  dereferences the piece it read. The piece object now referenced by the target cell is
  mutated by a promotion, and the later tests of \<^verbatim>\<open>piece.Type\<close> read the mutated
  type. When source and target are the same cell the second assignment leaves it nil.
  The rows are on the board when the division is reached, so Go's truncating division
  agrees with \<open>div\<close>.
\<close>

definition applyChessMove ::
    "ChessGameState \<Rightarrow> ChessMove \<Rightarrow> string \<Rightarrow> error + ChessGameState" where
  "applyChessMove state move playerColor =
     (if \<not> isValidPosition (From move) then Inl PanicIndexOutOfRange
      else if \<not> isValidPosition (To move) then Inl PanicIndexOutOfRange
      else case cBoard state (at (From move)) of
             None \<Rightarrow> Inl PanicNilDereference
           | Some piece0 \<Rightarrow>
               (let piece =
                      (if Type piece0 = ''pawn'' \<and> (Row (To move) = 0 \<or> Row (To move) = 7)
                       then (if Promotion move \<noteq> [] then piece0\<lparr>Type := Promotion move\<rparr>
                             else piece0\<lparr>Type := ''queen''\<rparr>)
                       else piece0);
                    s1 = state\<lparr>cBoard := (cBoard state)
                                  (at (To move) := Some piece, at (From move) := None)\<rparr>;
                    s2 = s1\<lparr>EnPassantTarget :=
                            (if Type piece = ''pawn'' \<and>
                                abs_int (Row (To move) - Row (From move)) = 2
                             then Some \<lparr>Row = (Row (From move) + Row (To move)) div 2,
                                        Col = Col (From move)\<rparr>
                             else None)\<rparr>;
                    s3 = (if Type piece = ''king'' then
                            (if playerColor = ''white''
                             then s2\<lparr>WhiteKingSideCastle := False, WhiteQueenSideCastle := False\<rparr>
                             else s2\<lparr>BlackKingSideCastle := False, BlackQueenSideCastle := False\<rparr>)
                          else s2);
                    s4 = (if Type piece = ''rook'' then
                            (if Row (From move) = 0 \<and> Col (From move) = 0
                               then s3\<lparr>BlackQueenSideCastle := False\<rparr>
                             else if Row (From move) = 0 \<and> Col (From move) = 7
                               then s3\<lparr>BlackKingSideCastle := False\<rparr>
                             else if Row (From move) = 7 \<and> Col (From move) = 0
                               then s3\<lparr>WhiteQueenSideCastle := False\<rparr>
                             else if Row (From move) = 7 \<and> Col (From move) = 7
                               then s3\<lparr>WhiteKingSideCastle := False\<rparr>
                             else s3)
                          else s3)
                in Inr s4))"

definition updateGameStatus :: "ChessGameState \<Rightarrow> ChessGameState" where
  "updateGameStatus state =
     (let whiteKingExists =
            list_ex (\<lambda>cell. case cBoard state cell of
                               None \<Rightarrow> False
                             | Some piece \<Rightarrow> Type piece = ''king'' \<and> Color piece = ''white'')
                    all_cells;
          blackKingExists =
            list_ex (\<lambda>cell. case cBoard state cell of
                               None \<Rightarrow> False
                             | Some piece \<Rightarrow> Type piece = ''king'' \<and> Color piece \<noteq> ''white'')
                    all_cells
      in if \<not> whiteKingExists then state\<lparr>cGameEnded := True, cWinner := Some (BlackPlayer state)\<rparr>
         else if \<not> blackKingExists
           then state\<lparr>cGameEnded := True, cWinner := Some (WhitePlayer state)\<rparr>
         else state)"

definition ChessEngine_ApplyMove ::
    "ChessGameState \<Rightarrow> ChessMove \<Rightarrow> uuid \<Rightarrow> error + ChessGameState" where
  "ChessEngine_ApplyMove state chessMove playerID =
     (let playerColor = getPlayerColor state playerID
      in case applyChessMove state chessMove playerColor of
           Inl e \<Rightarrow> Inl e
         | Inr s1 \<Rightarrow>
             (let s2 = s1\<lparr>cCurrentTurn :=
                           (if cCurrentTurn s1 = ''white'' then ''black'' else ''white'')\<rparr>;
                  s3 = s2\<lparr>MoveCount := MoveCount s2 + 1\<rparr>
              in Inr (updateGameStatus s3)))"

text \<open>
  The move generators. A generated move is the struct literal
  \<^verbatim>\<open>ChessMove{From: pos, To: ...}\<close>, whose promotion and castling tags are empty.
\<close>

definition candidate :: "ChessPosition \<Rightarrow> int \<Rightarrow> int \<Rightarrow> ChessMove" where
  "candidate pos newRow newCol =
     \<lparr>From = pos, To = \<lparr>Row = newRow, Col = newCol\<rparr>, Promotion = [], Castling = []\<rparr>"

definition generatePawnMoves :: "ChessGameState \<Rightarrow> ChessPosition \<Rightarrow> string \<Rightarrow> ChessMove list" where
  "generatePawnMoves state pos color =
     (let direction = (if color = ''black'' then - 1 else 1);
          newRow = Row pos + direction
      in (if isValidPosition \<lparr>Row = newRow, Col = Col pos\<rparr>
          then [candidate pos newRow (Col pos)] else []) @
         concat (map (\<lambda>colOffset.
                        let newCol = Col pos + colOffset
                        in if isValidPosition \<lparr>Row = newRow, Col = newCol\<rparr>
                           then [candidate pos newRow newCol] else [])
                     [- 1, 1]))"

text \<open>
  The inner loop of the sliding generators: \<open>i\<close> runs from 1 to 7 and the loop breaks at
  the first square off the board.
\<close>

definition slide :: "ChessPosition \<Rightarrow> int \<times> int \<Rightarrow> ChessMove list" where
  "slide pos dir =
     map (\<lambda>i. candidate pos (Row pos + fst dir * i) (Col pos + snd dir * i))
         (takeWhile (\<lambda>i. isValidPosition \<lparr>Row = Row pos + fst dir * i, Col = Col pos + snd dir * i\<rparr>)
                    [1..7])"

definition generateRookMoves :: "ChessPosition \<Rightarrow> ChessMove list" where
  "generateRookMoves pos = concat (map (slide pos) [(0, 1), (0, - 1), (1, 0), (- 1, 0)])"

definition hop :: "ChessPosition \<Rightarrow> int \<times> int \<Rightarrow> ChessMove list" where
  "hop pos dir =
     (let newRow = Row pos + fst dir; newCol = Col pos + snd dir
      in if isValidPosition \<lparr>Row = newRow, Col = newCol\<rparr> then [candidate pos newRow newCol]
         else [])"

definition generateKnightMoves :: "ChessPosition \<Rightarrow> ChessMove list" where
  "generateKnightMoves pos =
     concat (map (hop pos)
       [(2, 1), (2, - 1), (- 2, 1), (- 2, - 1), (1, 2), (1, - 2), (- 1, 2), (- 1, - 2)])"

definition generateBishopMoves :: "ChessPosition \<Rightarrow> ChessMove list" where
  "generateBishopMoves pos = concat (map (slide pos) [(1, 1), (1, - 1), (- 1, 1), (- 1, - 1)])"

definition generateQueenMoves :: "ChessPosition \<Rightarrow> ChessMove list" where
  "generateQueenMoves pos = generateRookMoves pos @ generateBishopMoves pos"

definition generateKingMoves :: "ChessPosition \<Rightarrow> ChessMove list" where
  "generateKingMoves pos =
     concat (map (hop pos)
       [(0, 1), (0, - 1), (1, 0), (- 1, 0), (1, 1), (1, - 1), (- 1, 1), (- 1, - 1)])"

text \<open>
  \<^verbatim>\<open>generatePieceMoves\<close> reads the piece at \<open>pos\<close>; its only caller has just read the
  same cell and found it non-nil, so the piece is passed along.
\<close>

definition generatePieceMoves ::
    "ChessGameState \<Rightarrow> ChessPosition \<Rightarrow> ChessPiece \<Rightarrow> ChessMove list" where
  "generatePieceMoves state pos piece =
     (if Type piece = ''pawn'' then generatePawnMoves state pos (Color piece)
      else if Type piece = ''rook'' then generateRookMoves pos
      else if Type piece = ''knight'' then generateKnightMoves pos
      else if Type piece = ''bishop'' then generateBishopMoves pos
      else if Type piece = ''queen'' then generateQueenMoves pos
      else if Type piece = ''king'' then generateKingMoves pos
      else [])"

text \<open>The body of the two nested loops of \<^verbatim>\<open>GetPossibleMoves\<close>, for one cell.\<close>

definition movesFromCell :: "ChessGameState \<Rightarrow> string \<Rightarrow> int \<times> int \<Rightarrow> ChessMove list" where
  "movesFromCell state playerColor cell =
     (case cBoard state cell of
        None \<Rightarrow> []
      | Some piece \<Rightarrow>
          if Color piece = playerColor
          then filter (\<lambda>move. validateChessMove state move playerColor = None)
                 (generatePieceMoves state \<lparr>Row = fst cell, Col = snd cell\<rparr> piece)
          else [])"

definition ChessEngine_GetPossibleMoves :: "ChessGameState \<Rightarrow> uuid \<Rightarrow> ChessMove list" where
  "ChessEngine_GetPossibleMoves state playerID =
     (let playerColor = getPlayerColor state playerID
      in concat (map (movesFromCell state playerColor) all_cells))"


text \<open>The four counts of the conservation invariant, read at the two player identifiers.\<close>

definition tile_count :: "DominoGameState \<Rightarrow> nat" where
  "tile_count state =
     length (hand_of state (Player1ID state)) + length (hand_of state (Player2ID state)) +
     length (Board state) + length (BoneYard state)"

section \<open>MatchmakingService (matchmaking.go)\<close>

text \<open>
  A \<^verbatim>\<open>time.Time\<close> is modelled as its count of nanoseconds since the epoch and a
  \<^verbatim>\<open>time.Duration\<close> as its count of nanoseconds.
\<close>

definition Minute :: int where
  "Minute = 60 * 1000000000"

definition matchmakingTimeout :: int where
  "matchmakingTimeout = 5 * Minute"

definition ratingTolerance :: int where
  "ratingTolerance = 100"

definition maxRatingTolerance :: int where
  "maxRatingTolerance = 500"

text \<open>
  The expression \<^verbatim>\<open>int(waitTime.Minutes())\<close> belongs to the Go language and its
  standard library, not to the repository: \<^verbatim>\<open>Duration.Minutes\<close> returns the
  floating-point sum of the whole minutes \<^verbatim>\<open>d / Minute\<close> and the fraction
  \<^verbatim>\<open>(d % Minute) / 6e10\<close>, and the conversion to \<^verbatim>\<open>int\<close> drops the fraction of that
  sum. The model takes the whole expression as the parameter \<open>minutesOf\<close> of
  \<^verbatim>\<open>calculateRatingTolerance\<close>. What the theorems use of it is \<open>go_minutes\<close>: on every
  duration shorter than 2^18 minutes (half a year) in either direction it is the quotient
  by one minute rounded toward zero, and it never decreases when the duration grows.
  Beyond 2^18 minutes the floating-point sum can round to the next whole minute, so there
  nothing but the monotonicity is assumed.
\<close>

definition quot_toward_zero :: "int \<Rightarrow> int \<Rightarrow> int" where
  "quot_toward_zero a b = (if a < 0 then - ((- a) div b) else a div b)"

definition go_minutes :: "(int \<Rightarrow> int) \<Rightarrow> bool" where
  "go_minutes minutesOf \<longleftrightarrow>
     (\<forall>d. - (2 ^ 18 * Minute) < d \<and> d < 2 ^ 18 * Minute \<longrightarrow>
          minutesOf d = quot_toward_zero d Minute) \<and>
     (\<forall>d e. d \<le> e \<longrightarrow> minutesOf d \<le> minutesOf e)"

text \<open>
  One conversion that meets \<open>go_minutes\<close>, the quotient rounded toward zero on every
  duration. It serves to exercise the theorems at concrete inputs; Go's conversion agrees
  with it below 2^18 minutes.
\<close>

definition exact_minutes :: "int \<Rightarrow> int" where
  "exact_minutes d = quot_toward_zero d Minute"

definition calculateRatingTolerance :: "(int \<Rightarrow> int) \<Rightarrow> int \<Rightarrow> int" where
  "calculateRatingTolerance minutesOf waitTime =
     (let tolerance = ratingTolerance + minutesOf waitTime * 20
      in if tolerance > maxRatingTolerance then maxRatingTolerance else tolerance)"

text \<open>
  The tolerance in the words of the specification: base plus floor of the wait in minutes
  times the step, clamped to the maximum.
\<close>

definition spec_floor_tolerance :: "int \<Rightarrow> int" where
  "spec_floor_tolerance waitTime =
     min (ratingTolerance + (waitTime div Minute) * 20) maxRatingTolerance"

record MatchmakingRequest =
  UserID :: uuid
  GameType :: string
  Rating :: int
  JoinedAt :: int

text \<open>
  Modelled from the spec: the queue and store collaborator (a Redis server in the code,
  reached through a client library that is not part of the repository). Per game type it
  holds a membership sorted by join time, here the list of members with their scores kept
  in ascending order of score and, among equal scores, of member; and it holds a keyed
  payload store with expiry, here a map from the user to the request and the instant at
  which the entry expires. An entry is gone once the clock has passed that instant.
  The model follows one game type, the one whose queue is \<open>queue\<close>.
\<close>

record QueueStore =
  queue :: "(uuid \<times> int) list"
  requests :: "uuid \<rightharpoonup> (MatchmakingRequest \<times> int)"

fun zinsert :: "uuid \<times> int \<Rightarrow> (uuid \<times> int) list \<Rightarrow> (uuid \<times> int) list" where
  "zinsert e [] = [e]"
| "zinsert e (x # xs) =
     (if snd e < snd x \<or> (snd e = snd x \<and> unat (fst e) \<le> unat (fst x)) then e # x # xs
      else x # zinsert e xs)"

definition ZAdd :: "(uuid \<times> int) list \<Rightarrow> uuid \<Rightarrow> int \<Rightarrow> (uuid \<times> int) list" where
  "ZAdd q member score = zinsert (member, score) (filter (\<lambda>x. fst x \<noteq> member) q)"

definition ZRem :: "(uuid \<times> int) list \<Rightarrow> uuid list \<Rightarrow> (uuid \<times> int) list" where
  "ZRem q members = filter (\<lambda>x. fst x \<notin> set members) q"

definition ZRange :: "(uuid \<times> int) list \<Rightarrow> uuid list" where
  "ZRange q = map fst q"

definition ZScore :: "(uuid \<times> int) list \<Rightarrow> uuid \<Rightarrow> int option" where
  "ZScore q member = map_of q member"

definition store_Get :: "QueueStore \<Rightarrow> int \<Rightarrow> uuid \<Rightarrow> MatchmakingRequest option" where
  "store_Get st now key =
     (case requests st key of
        None \<Rightarrow> None
      | Some (payload, expiresAt) \<Rightarrow> if now > expiresAt then None else Some payload)"

datatype queue_error = UserAlreadyInQueue

text \<open>
  \<^verbatim>\<open>JoinQueue\<close> at the instant \<open>now\<close>; the score is \<^verbatim>\<open>time.Now().Unix()\<close>, the whole
  seconds of \<open>now\<close>. The errors of the store are outside the model.
\<close>

definition JoinQueue :: "int \<Rightarrow> QueueStore \<Rightarrow> uuid \<Rightarrow> string \<Rightarrow> int \<Rightarrow> queue_error + QueueStore" where
  "JoinQueue now st userID gameType rating =
     (case ZScore (queue st) userID of
        Some exists \<Rightarrow>
          if exists \<noteq> 0 then Inl UserAlreadyInQueue
          else Inr (st\<lparr>queue := ZAdd (queue st) userID (now div 1000000000),
                       requests := (requests st)(userID \<mapsto>
                         (\<lparr>UserID = userID, GameType = gameType, Rating = rating, JoinedAt = now\<rparr>,
                          now + matchmakingTimeout))\<rparr>)
      | None \<Rightarrow>
          Inr (st\<lparr>queue := ZAdd (queue st) userID (now div 1000000000),
                  requests := (requests st)(userID \<mapsto>
                    (\<lparr>UserID = userID, GameType = gameType, Rating = rating, JoinedAt = now\<rparr>,
                     now + matchmakingTimeout))\<rparr>))"

definition getMatchmakingRequest :: "QueueStore \<Rightarrow> int \<Rightarrow> uuid \<Rightarrow> MatchmakingRequest option" where
  "getMatchmakingRequest st now userID = store_Get st now userID"

text \<open>
  The inner loop of \<^verbatim>\<open>matchPlayers\<close> over the later entries of the queue. The call of
  \<^verbatim>\<open>createMatch\<close> reaches the engine registry and the database; whether it succeeds is
  the parameter \<open>createMatch\<close>. The result is the opponent the loop stopped at.
\<close>

fun findOpponent ::
    "(MatchmakingRequest \<Rightarrow> MatchmakingRequest \<Rightarrow> bool) \<Rightarrow> QueueStore \<Rightarrow> int \<Rightarrow>
     MatchmakingRequest \<Rightarrow> int \<Rightarrow> uuid list \<Rightarrow> uuid option" where
  "findOpponent createMatch st now player1Request tolerance [] = None"
| "findOpponent createMatch st now player1Request tolerance (player2ID # later) =
     (case getMatchmakingRequest st now player2ID of
        None \<Rightarrow> findOpponent createMatch st now player1Request tolerance later
      | Some player2Request \<Rightarrow>
          (let ratingDiff = abs_int (Rating player1Request - Rating player2Request)
           in if ratingDiff \<le> tolerance \<and> createMatch player1Request player2Request
              then Some player2ID
              else findOpponent createMatch st now player1Request tolerance later))"

text \<open>The outer loop: the last entry of the queue is never an outer candidate.\<close>

fun matchLoop ::
    "(int \<Rightarrow> int) \<Rightarrow> (MatchmakingRequest \<Rightarrow> MatchmakingRequest \<Rightarrow> bool) \<Rightarrow> QueueStore \<Rightarrow> int \<Rightarrow>
     uuid list \<Rightarrow> (uuid \<times> uuid) option" where
  "matchLoop minutesOf createMatch st now [] = None"
| "matchLoop minutesOf createMatch st now [lastID] = None"
| "matchLoop minutesOf createMatch st now (player1ID # later) =
     (case getMatchmakingRequest st now player1ID of
        None \<Rightarrow> matchLoop minutesOf createMatch st now later
      | Some player1Request \<Rightarrow>
          (let waitTime = now - JoinedAt player1Request;
               tolerance = calculateRatingTolerance minutesOf waitTime
           in case findOpponent createMatch st now player1Request tolerance later of
                Some player2ID \<Rightarrow> Some (player1ID, player2ID)
              | None \<Rightarrow> matchLoop minutesOf createMatch st now later))"

definition matchPlayers ::
    "(int \<Rightarrow> int) \<Rightarrow> (MatchmakingRequest \<Rightarrow> MatchmakingRequest \<Rightarrow> bool) \<Rightarrow> int \<Rightarrow>
     QueueStore \<Rightarrow> uuid list \<Rightarrow> QueueStore \<times> (uuid \<times> uuid) option" where
  "matchPlayers minutesOf createMatch now st userIDs =
     (case matchLoop minutesOf createMatch st now userIDs of
        None \<Rightarrow> (st, None)
      | Some (player1ID, player2ID) \<Rightarrow>
          (st\<lparr>queue := ZRem (queue st) [player1ID, player2ID],
              requests := (requests st)(player1ID := None, player2ID := None)\<rparr>,
           Some (player1ID, player2ID)))"

text \<open>The body of the loop of \<^verbatim>\<open>processMatchmaking\<close> for the game type of the queue.\<close>

definition processMatchmaking ::
    "(int \<Rightarrow> int) \<Rightarrow> (MatchmakingRequest \<Rightarrow> MatchmakingRequest \<Rightarrow> bool) \<Rightarrow> int \<Rightarrow>
     QueueStore \<Rightarrow> QueueStore \<times> (uuid \<times> uuid) option" where
  "processMatchmaking minutesOf createMatch now st =
     (let userIDs = ZRange (queue st)
      in if length userIDs < 2 then (st, None)
         else matchPlayers minutesOf createMatch now st userIDs)"

definition cleanupExpiredRequests :: "int \<Rightarrow> QueueStore \<Rightarrow> QueueStore" where
  "cleanupExpiredRequests now st =
     (let userIDs = ZRange (queue st);
          expiredUsers = filter (\<lambda>userID.
              case getMatchmakingRequest st now userID of
                None \<Rightarrow> True
              | Some request \<Rightarrow> now - JoinedAt request > matchmakingTimeout) userIDs
      in if length expiredUsers > 0
         then st\<lparr>queue := ZRem (queue st) expiredUsers,
                 requests := (\<lambda>key. if key \<in> set expiredUsers then None else requests st key)\<rparr>
         else st)"

text \<open>
  The scenario of two players who join the queue of one game type at the same instant
  \<open>t0\<close>, rated 1000 and 1300.
\<close>

definition emptyStore :: QueueStore where
  "emptyStore = \<lparr>queue = [], requests = Map.empty\<rparr>"

definition two_joined :: "int \<Rightarrow> QueueStore" where
  "two_joined t0 =
     (case JoinQueue t0 emptyStore 1 ''chess'' 1000 of
        Inl e \<Rightarrow> emptyStore
      | Inr st1 \<Rightarrow>
          (case JoinQueue t0 st1 2 ''chess'' 1300 of
             Inl e \<Rightarrow> st1
           | Inr st2 \<Rightarrow> st2))"


section \<open>Session hub (package websocket)\<close>

text \<open>
  The source of the hub is the file of package \<^verbatim>\<open>websocket\<close> stored after the
  matchmaking service in \<^verbatim>\<open>src/backend/internal/lobby/matchmaking.go\<close> (lines 331 to 814).
\<close>

text \<open>
  The hub's registries hold pointers: \<^verbatim>\<open>h.clients\<close> and the \<^verbatim>\<open>Clients\<close> map of every
  room map a client id to the one \<^verbatim>\<open>Client\<close> object of that id. The model keeps the
  objects in \<open>heap\<close>, keyed by id, and the maps as the lists of their keys; a Go map is
  ranged over in the order of the list, and the effect of the loops below on a client does
  not depend on that order. Of a client the model keeps the outbound channel \<^verbatim>\<open>Send\<close>
  (its number of buffered messages and whether it is closed; the capacity is 256, set in
  \<^verbatim>\<open>HandleWebSocket\<close>) and the set \<^verbatim>\<open>Rooms\<close>. The operations run one at a time, as the
  hub's mutex makes them; the write pump that drains a channel is a separate operation.
\<close>

record Client =
  Send :: nat
  SendClosed :: bool
  Rooms :: "string list"

record Hub =
  heap :: "uuid \<rightharpoonup> Client"
  clients :: "uuid list"
  rooms :: "string \<rightharpoonup> uuid list"

datatype hub_error = ClientNotFound | PanicSendOnClosedChannel | PanicCloseOfClosedChannel

definition sendCapacity :: nat where
  "sendCapacity = 256"

definition NewHub :: Hub where
  "NewHub = \<lparr>heap = Map.empty, clients = [], rooms = Map.empty\<rparr>"

definition registerClient :: "Hub \<Rightarrow> uuid \<Rightarrow> Hub" where
  "registerClient h clientID =
     h\<lparr>clients := (if clientID \<in> set (clients h) then clients h else clients h @ [clientID])\<rparr>"

text \<open>
  \<^verbatim>\<open>HandleWebSocket\<close>: a new client object with an empty channel and no rooms is made
  and handed to \<^verbatim>\<open>registerClient\<close>.
\<close>

definition HandleWebSocket :: "Hub \<Rightarrow> uuid \<Rightarrow> Hub" where
  "HandleWebSocket h clientID =
     registerClient
       (h\<lparr>heap := (heap h)(clientID \<mapsto> \<lparr>Send = 0, SendClosed = False, Rooms = []\<rparr>)\<rparr>) clientID"

text \<open>
  The loop of \<^verbatim>\<open>broadcastToRoom\<close> over the members of the room. The \<^verbatim>\<open>select\<close> sends
  when the channel has room, and otherwise closes the channel and deletes the client from
  the room's map. A send on a closed channel panics.
\<close>

fun deliver :: "Hub \<Rightarrow> string \<Rightarrow> uuid list \<Rightarrow> hub_error + Hub" where
  "deliver h roomID [] = Inr h"
| "deliver h roomID (clientID # rest) =
     (case heap h clientID of
        None \<Rightarrow> deliver h roomID rest
      | Some client \<Rightarrow>
          if SendClosed client then Inl PanicSendOnClosedChannel
          else if Send client < sendCapacity
            then deliver (h\<lparr>heap := (heap h)(clientID \<mapsto> client\<lparr>Send := Send client + 1\<rparr>)\<rparr>)
                   roomID rest
          else deliver
                 (h\<lparr>heap := (heap h)(clientID \<mapsto> client\<lparr>SendClosed := True\<rparr>),
                    rooms := (case rooms h roomID of
                                None \<Rightarrow> rooms h
                              | Some members \<Rightarrow>
                                  (rooms h)(roomID \<mapsto> removeAll clientID members))\<rparr>)
                 roomID rest)"

definition broadcastToRoom :: "Hub \<Rightarrow> string \<Rightarrow> hub_error + Hub" where
  "broadcastToRoom h roomID =
     (case rooms h roomID of
        None \<Rightarrow> Inr h
      | Some members \<Rightarrow> deliver h roomID members)"

definition BroadcastToRoom :: "Hub \<Rightarrow> string \<Rightarrow> hub_error + Hub" where
  "BroadcastToRoom h roomID = broadcastToRoom h roomID"

definition removeClientFromRoom :: "Hub \<Rightarrow> uuid \<Rightarrow> string \<Rightarrow> hub_error + Hub" where
  "removeClientFromRoom h clientID roomID =
     (case rooms h roomID of
        None \<Rightarrow> Inr h
      | Some members \<Rightarrow>
          (let members' = removeAll clientID members;
               isEmpty = (length members' = 0);
               h1 = h\<lparr>rooms := (rooms h)(roomID \<mapsto> members')\<rparr>;
               h2 = (case heap h1 clientID of
                       None \<Rightarrow> h1
                     | Some client \<Rightarrow>
                         h1\<lparr>heap := (heap h1)
                               (clientID \<mapsto> client\<lparr>Rooms := removeAll roomID (Rooms client)\<rparr>)\<rparr>)
           in case broadcastToRoom h2 roomID of
                Inl e \<Rightarrow> Inl e
              | Inr h3 \<Rightarrow>
                  if isEmpty then Inr (h3\<lparr>rooms := (rooms h3)(roomID := None)\<rparr>) else Inr h3))"

definition JoinRoom :: "Hub \<Rightarrow> uuid \<Rightarrow> string \<Rightarrow> hub_error + Hub" where
  "JoinRoom h clientID roomID =
     (if clientID \<notin> set (clients h) then Inl ClientNotFound
      else
        (let members = (case rooms h roomID of None \<Rightarrow> [] | Some ms \<Rightarrow> ms);
             h1 = h\<lparr>rooms := (rooms h)
                     (roomID \<mapsto> (if clientID \<in> set members then members
                                  else members @ [clientID]))\<rparr>;
             h2 = (case heap h1 clientID of
                     None \<Rightarrow> h1
                   | Some client \<Rightarrow>
                       h1\<lparr>heap := (heap h1)
                             (clientID \<mapsto> client\<lparr>Rooms :=
                                (if roomID \<in> set (Rooms client) then Rooms client
                                 else Rooms client @ [roomID])\<rparr>)\<rparr>)
         in broadcastToRoom h2 roomID))"

definition LeaveRoom :: "Hub \<Rightarrow> uuid \<Rightarrow> string \<Rightarrow> hub_error + Hub" where
  "LeaveRoom h clientID roomID =
     (if clientID \<notin> set (clients h) then Inl ClientNotFound
      else removeClientFromRoom h clientID roomID)"

fun leaveRooms :: "Hub \<Rightarrow> uuid \<Rightarrow> string list \<Rightarrow> hub_error + Hub" where
  "leaveRooms h clientID [] = Inr h"
| "leaveRooms h clientID (roomID # rest) =
     (case removeClientFromRoom h clientID roomID of
        Inl e \<Rightarrow> Inl e
      | Inr h' \<Rightarrow> leaveRooms h' clientID rest)"

text \<open>Closing a channel that is closed already panics.\<close>

definition unregisterClient :: "Hub \<Rightarrow> uuid \<Rightarrow> hub_error + Hub" where
  "unregisterClient h clientID =
     (if clientID \<in> set (clients h) then
        (case heap h clientID of
           None \<Rightarrow> Inr h
         | Some client \<Rightarrow>
             (case leaveRooms h clientID (Rooms client) of
                Inl e \<Rightarrow> Inl e
              | Inr h1 \<Rightarrow>
                  (let h2 = h1\<lparr>clients := removeAll clientID (clients h1)\<rparr>
                   in case heap h2 clientID of
                        None \<Rightarrow> Inr h2
                      | Some c \<Rightarrow>
                          if SendClosed c then Inl PanicCloseOfClosedChannel
                          else Inr (h2\<lparr>heap := (heap h2)(clientID \<mapsto> c\<lparr>SendClosed := True\<rparr>)\<rparr>))))
      else Inr h)"

text \<open>
  The operations of the claim, dispatched one after the other. An operation that returns
  the error "client not found" leaves the hub as it was; a panic ends the run.
\<close>

datatype hub_op =
    Register uuid
  | Unregister uuid
  | Join uuid string
  | Leave uuid string
  | RoomBroadcast string

definition returned :: "Hub \<Rightarrow> hub_error + Hub \<Rightarrow> hub_error + Hub" where
  "returned h r = (case r of Inl ClientNotFound \<Rightarrow> Inr h | Inl e \<Rightarrow> Inl e | Inr h' \<Rightarrow> Inr h')"

fun dispatch :: "Hub \<Rightarrow> hub_op \<Rightarrow> hub_error + Hub" where
  "dispatch h (Register clientID) = Inr (HandleWebSocket h clientID)"
| "dispatch h (Unregister clientID) = unregisterClient h clientID"
| "dispatch h (Join clientID roomID) = returned h (JoinRoom h clientID roomID)"
| "dispatch h (Leave clientID roomID) = returned h (LeaveRoom h clientID roomID)"
| "dispatch h (RoomBroadcast roomID) = BroadcastToRoom h roomID"

fun run :: "Hub \<Rightarrow> hub_op list \<Rightarrow> hub_error + Hub" where
  "run h [] = Inr h"
| "run h (op # ops) = (case dispatch h op of Inl e \<Rightarrow> Inl e | Inr h' \<Rightarrow> run h' ops)"

text \<open>One client alone in the room "r", with \<open>k\<close> messages waiting in its channel.\<close>

definition alone_in_room :: "nat \<Rightarrow> Hub" where
  "alone_in_room k =
     \<lparr>heap = [1 \<mapsto> \<lparr>Send = k, SendClosed = False, Rooms = [''r'']\<rparr>],
      clients = [1],
      rooms = [''r'' \<mapsto> [1]]\<rparr>"

section \<open>Concrete states and moves used to exercise the theorems\<close>

definition example_dominoes :: DominoGameState where
  "example_dominoes =
     \<lparr>PlayerHands = [1 \<mapsto> [\<lparr>Left = 3, Right = 3\<rparr>, \<lparr>Left = 1, Right = 2\<rparr>],
                     2 \<mapsto> [\<lparr>Left = 3, Right = 5\<rparr>]],
      Board = [], BoneYard = [], CurrentTurn = 1, Player1ID = 1, Player2ID = 2,
      GameEnded = False, Winner = None\<rparr>"

definition example_first_play :: DominoMove where
  "example_first_play = \<lparr>Tile = \<lparr>Left = 3, Right = 3\<rparr>, Side = ''left'', Pass = False\<rparr>"

definition example_dominoes_midgame :: DominoGameState where
  "example_dominoes_midgame =
     \<lparr>PlayerHands = [1 \<mapsto> [\<lparr>Left = 1, Right = 2\<rparr>], 2 \<mapsto> [\<lparr>Left = 3, Right = 5\<rparr>]],
      Board = [\<lparr>Left = 3, Right = 3\<rparr>], BoneYard = [], CurrentTurn = 2, Player1ID = 1,
      Player2ID = 2, GameEnded = False, Winner = None\<rparr>"

definition example_pass :: DominoMove where
  "example_pass = \<lparr>Tile = \<lparr>Left = 0, Right = 0\<rparr>, Side = [], Pass = True\<rparr>"

definition example_knight_move :: ChessMove where
  "example_knight_move =
     \<lparr>From = \<lparr>Row = 7, Col = 1\<rparr>, To = \<lparr>Row = 5, Col = 2\<rparr>, Promotion = [], Castling = []\<rparr>"

text \<open>A started game: white is player 1, black is player 2, and it is black's turn.\<close>

definition example_black_to_move :: ChessGameState where
  "example_black_to_move =
     ChessEngine_Initialize\<lparr>cCurrentTurn := ''black'', cPlayer1ID := 1, cPlayer2ID := 2,
       WhitePlayer := 1, BlackPlayer := 2\<rparr>"

definition example_black_knight_move :: ChessMove where
  "example_black_knight_move =
     \<lparr>From = \<lparr>Row = 0, Col = 1\<rparr>, To = \<lparr>Row = 2, Col = 2\<rparr>, Promotion = [], Castling = []\<rparr>"

text \<open>
  An endgame position: a white rook on (4, 4) facing a black pawn on (4, 6), a white pawn
  on (6, 0) with the square (7, 0) ahead of it empty, and both kings.
\<close>

definition example_endgame :: ChessGameState where
  "example_endgame =
     ChessEngine_Initialize\<lparr>cBoard :=
        (\<lambda>cell. None)
          ((4, 4) := Some \<lparr>Type = ''rook'', Color = ''white''\<rparr>,
           (4, 6) := Some \<lparr>Type = ''pawn'', Color = ''black''\<rparr>,
           (6, 0) := Some \<lparr>Type = ''pawn'', Color = ''white''\<rparr>,
           (7, 4) := Some \<lparr>Type = ''king'', Color = ''white''\<rparr>,
           (0, 4) := Some \<lparr>Type = ''king'', Color = ''black''\<rparr>),
        WhitePlayer := 1, BlackPlayer := 2, cPlayer1ID := 1, cPlayer2ID := 2\<rparr>"

definition example_rook_capture :: ChessMove where
  "example_rook_capture =
     \<lparr>From = \<lparr>Row = 4, Col = 4\<rparr>, To = \<lparr>Row = 4, Col = 6\<rparr>, Promotion = [], Castling = []\<rparr>"

definition example_underpromotion :: ChessMove where
  "example_underpromotion =
     \<lparr>From = \<lparr>Row = 6, Col = 0\<rparr>, To = \<lparr>Row = 7, Col = 0\<rparr>, Promotion = ''knight'',
      Castling = []\<rparr>"



section \<open>Properties of the domino engine\<close>

lemma length_shuffle_loop: "length (shuffle_loop rnd n xs) = length xs"
  by (induction n arbitrary: xs) (simp_all add: Let_def)

lemma length_rand_Shuffle: "length (rand_Shuffle rnd xs) = length xs"
  by (simp add: rand_Shuffle_def length_shuffle_loop)

lemma length_generateDominoSet: "length generateDominoSet = 28"
  unfolding generateDominoSet_def by code_simp

lemma deal_round_same:
  "Player1ID g = Player2ID g \<Longrightarrow>
   Player1ID (deal_round sh i g) = Player1ID g \<and>
   Player2ID (deal_round sh i g) = Player2ID g \<and>
   Board (deal_round sh i g) = Board g \<and>
   BoneYard (deal_round sh i g) = BoneYard g \<and>
   length (hand_of (deal_round sh i g) (Player1ID g)) = length (hand_of g (Player1ID g)) + 2"
  by (simp add: deal_round_def hand_of_def Let_def)

lemma fold_deal_round_same:
  "Player1ID g = Player2ID g \<Longrightarrow>
   Player1ID (fold (deal_round sh) ixs g) = Player1ID g \<and>
   Player2ID (fold (deal_round sh) ixs g) = Player2ID g \<and>
   Board (fold (deal_round sh) ixs g) = Board g \<and>
   BoneYard (fold (deal_round sh) ixs g) = BoneYard g \<and>
   length (hand_of (fold (deal_round sh) ixs g) (Player1ID g)) =
     length (hand_of g (Player1ID g)) + 2 * length ixs"
proof (induction ixs arbitrary: g)
  case Nil
  then show ?case by simp
next
  case (Cons i ixs)
  from Cons.prems have d: "Player1ID (deal_round sh i g) = Player1ID g"
    "Player2ID (deal_round sh i g) = Player2ID g"
    "Board (deal_round sh i g) = Board g"
    "BoneYard (deal_round sh i g) = BoneYard g"
    "length (hand_of (deal_round sh i g) (Player1ID g)) = length (hand_of g (Player1ID g)) + 2"
    using deal_round_same [of g sh i] by simp_all
  have "Player1ID (deal_round sh i g) = Player2ID (deal_round sh i g)"
    using d Cons.prems by simp
  from Cons.IH [OF this] show ?case using d by simp
qed

lemma same_hands_start: "Player1ID g = Player2ID g \<Longrightarrow> determineStartingPlayer g = Player1ID g"
  by (simp add: determineStartingPlayer_def Let_def)

lemma Initialize_shape:
  "\<exists>s. DominoEngine_Initialize rnd = Inr s \<and>
     Player1ID s = uuid_Nil \<and> Player2ID s = uuid_Nil \<and> CurrentTurn s = uuid_Nil \<and>
     length (hand_of s uuid_Nil) = 14 \<and> length (BoneYard s) = 14 \<and> Board s = []"
proof -
  let ?sh = "rand_Shuffle rnd generateDominoSet"
  let ?g = "\<lparr>PlayerHands = Map.empty, Board = [], BoneYard = drop 14 ?sh,
             CurrentTurn = uuid_Nil, Player1ID = uuid_Nil, Player2ID = uuid_Nil,
             GameEnded = False, Winner = None\<rparr>"
  let ?d = "fold (deal_round ?sh) [0..<7] ?g"
  have len: "length ?sh = 28" by (simp add: length_rand_Shuffle length_generateDominoSet)
  have f: "Player1ID ?d = uuid_Nil" "Player2ID ?d = uuid_Nil" "Board ?d = []"
    "BoneYard ?d = drop 14 ?sh" "length (hand_of ?d uuid_Nil) = 14"
    using fold_deal_round_same [of ?g ?sh "[0..<7]"] by (simp_all add: hand_of_def)
  have st: "determineStartingPlayer ?d = uuid_Nil"
    using same_hands_start [of ?d] f(1,2) by simp
  have e: "DominoEngine_Initialize rnd = Inr (?d\<lparr>CurrentTurn := determineStartingPlayer ?d\<rparr>)"
    by (simp add: DominoEngine_Initialize_def Let_def len)
  show ?thesis
    unfolding e st using f len by (simp add: hand_of_def)
qed

lemma placeTileOnBoard_nonempty:
  "board \<noteq> [] \<Longrightarrow> \<exists>b. placeTileOnBoard board tile side = Inr b \<and> length b = Suc (length board)"
  by (cases board) (simp_all add: placeTileOnBoard_def Let_def)

lemma domino_validated_applies:
  "DominoEngine_ValidateMove s m p = None \<Longrightarrow> \<exists>s'. DominoEngine_ApplyMove s m p = Inr s'"
proof (cases "Pass m")
  case True
  then show ?thesis by (simp add: DominoEngine_ApplyMove_def Let_def)
next
  case False
  define s1 where "s1 = (case removeFirstMatch (hand_of s p) (Tile m) of
                     None \<Rightarrow> s
                   | Some h \<Rightarrow> s\<lparr>PlayerHands := (PlayerHands s)(p \<mapsto> h)\<rparr>)"
  have b: "Board s1 = Board s" by (simp add: s1_def split: option.splits)
  show ?thesis
  proof (cases "Board s = []")
    case True
    with False b show ?thesis
      by (simp add: DominoEngine_ApplyMove_def Let_def s1_def [symmetric])
  next
    case ne: False
    then obtain b' where "placeTileOnBoard (Board s1) (Tile m) (Side m) = Inr b'"
      using placeTileOnBoard_nonempty [of "Board s1" "Tile m" "Side m"] b by auto
    with False ne b show ?thesis
      by (simp add: DominoEngine_ApplyMove_def Let_def s1_def [symmetric])
  qed
qed

lemma possible_nonpass_canPlay:
  assumes "\<exists>m \<in> set (DominoEngine_GetPossibleMoves s p). \<not> Pass m"
  shows "canPlayerPlay s p"
proof (cases "Board s")
  case Nil
  then show ?thesis by (simp add: canPlayerPlay_def)
next
  case (Cons b0 rest)
  let ?pm = "concat (map (\<lambda>tile.
                     (if validateTilePlacement (Board s) tile ''left'' = None
                      then [\<lparr>Tile = tile, Side = ''left'', Pass = False\<rparr>] else []) @
                     (if validateTilePlacement (Board s) tile ''right'' = None
                      then [\<lparr>Tile = tile, Side = ''right'', Pass = False\<rparr>] else []))
                   (hand_of s p))"
  have "?pm \<noteq> []"
  proof
    assume "?pm = []"
    then have "DominoEngine_GetPossibleMoves s p = [\<lparr>Tile = \<lparr>Left = 0, Right = 0\<rparr>, Side = '''', Pass = True\<rparr>]"
      using Cons by (simp add: DominoEngine_GetPossibleMoves_def Let_def)
    with assms show False by simp
  qed
  then obtain tile where t: "tile \<in> set (hand_of s p)"
     and v: "validateTilePlacement (Board s) tile ''left'' = None \<or>
             validateTilePlacement (Board s) tile ''right'' = None"
    by (auto split: if_splits)
  from v have "Left tile = Left b0 \<or> Right tile = Left b0 \<or>
      Left tile = Right (last (b0 # rest)) \<or> Right tile = Right (last (b0 # rest))"
    using Cons by (auto simp: validateTilePlacement_def Let_def split: if_splits)
  with t show ?thesis
    using Cons by (auto simp: canPlayerPlay_def Let_def list_ex_iff)
qed

lemma pass_rejected_when_playable:
  "CurrentTurn s = p \<Longrightarrow> \<not> GameEnded s \<Longrightarrow>
   \<exists>m \<in> set (DominoEngine_GetPossibleMoves s p). \<not> Pass m \<Longrightarrow> Pass pm \<Longrightarrow>
   DominoEngine_ValidateMove s pm p = Some PlayerMustPlayIfPossible"
  using possible_nonpass_canPlay [of s p]
  by (simp add: DominoEngine_ValidateMove_def)

text \<open>
  A validated move conserves the four counts wherever the two player identifiers differ
  and the turn is with one of them; the turn then stays with one of them.
\<close>

lemma removeFirstMatch_length:
  "list_ex (\<lambda>tile. tileMatches tile wanted) hand \<Longrightarrow>
   \<exists>h. removeFirstMatch hand wanted = Some h \<and> Suc (length h) = length hand"
  by (induction hand) auto

lemma apply_conserves_tiles:
  assumes v: "DominoEngine_ValidateMove s m p = None"
    and d: "Player1ID s \<noteq> Player2ID s"
    and t: "CurrentTurn s = Player1ID s \<or> CurrentTurn s = Player2ID s"
    and a: "DominoEngine_ApplyMove s m p = Inr s'"
  shows "tile_count s' = tile_count s \<and> Player1ID s' = Player1ID s \<and>
         Player2ID s' = Player2ID s \<and>
         (CurrentTurn s' = Player1ID s' \<or> CurrentTurn s' = Player2ID s')"
proof (cases "Pass m")
  case True
  with a show ?thesis
    by (auto simp: DominoEngine_ApplyMove_def Let_def tile_count_def hand_of_def
        getOtherPlayer_def split: if_splits)
next
  case False
  from v False have turn: "CurrentTurn s = p"
    and has: "list_ex (\<lambda>tile. tileMatches tile (Tile m)) (hand_of s p)"
    by (auto simp: DominoEngine_ValidateMove_def split: if_splits)
  from removeFirstMatch_length [OF has] obtain h where
    h: "removeFirstMatch (hand_of s p) (Tile m) = Some h" "Suc (length h) = length (hand_of s p)"
    by blast
  define s1 where "s1 = s\<lparr>PlayerHands := (PlayerHands s)(p \<mapsto> h)\<rparr>"
  obtain b where b: "(if length (Board s1) = 0 then Inr (Board s1 @ [Tile m])
        else placeTileOnBoard (Board s1) (Tile m) (Side m)) = Inr b"
      "length b = Suc (length (Board s))"
    using placeTileOnBoard_nonempty [of "Board s1" "Tile m" "Side m"]
    by (cases "Board s1 = []") (auto simp: s1_def)
  have s': "s' = (if length (hand_of (s1\<lparr>Board := b\<rparr>) p) = 0
        then s1\<lparr>Board := b, GameEnded := True, Winner := Some p\<rparr>
        else s1\<lparr>Board := b, CurrentTurn := getOtherPlayer (s1\<lparr>Board := b\<rparr>) p\<rparr>)"
    using a False h(1) b(1)
    by (simp add: DominoEngine_ApplyMove_def Let_def s1_def [symmetric] split: if_splits)
  have f: "Player1ID s' = Player1ID s" "Player2ID s' = Player2ID s" "BoneYard s' = BoneYard s"
    "Board s' = b" "PlayerHands s' = (PlayerHands s)(p \<mapsto> h)"
    by (simp_all add: s' s1_def)
  have hand: "hand_of s' q = (if q = p then h else hand_of s q)" for q
    by (simp add: hand_of_def f(5))
  have ct: "CurrentTurn s' = p \<or> CurrentTurn s' = getOtherPlayer (s1\<lparr>Board := b\<rparr>) p"
    using turn by (simp add: s' s1_def)
  have other: "getOtherPlayer (s1\<lparr>Board := b\<rparr>) p = Player1ID s \<or>
      getOtherPlayer (s1\<lparr>Board := b\<rparr>) p = Player2ID s"
    by (simp add: getOtherPlayer_def s1_def)
  have count: "tile_count s' = tile_count s"
  proof (cases "p = Player1ID s")
    case True
    with d have "Player2ID s \<noteq> p" by simp
    with True h(2) show ?thesis
      by (simp add: tile_count_def f(1-4) hand b(2))
  next
    case False
    with t turn have p2: "p = Player2ID s" by simp
    with d have "Player1ID s \<noteq> p" by simp
    with p2 h(2) show ?thesis
      by (simp add: tile_count_def f(1-4) hand b(2))
  qed
  from count f(1,2) ct other t turn show ?thesis by auto
qed

section \<open>Properties of the chess engine\<close>

lemma validateChessMove_NoneD:
  assumes "validateChessMove s m c = None"
  shows "isValidPosition (From m)" "isValidPosition (To m)"
    "\<exists>piece. cBoard s (at (From m)) = Some piece \<and> Color piece = c \<and>
        validatePieceMove s m piece = None"
    "\<forall>tp. cBoard s (at (To m)) = Some tp \<longrightarrow> Color tp \<noteq> c"
  using assms
  by (auto simp: validateChessMove_def split: if_splits option.splits)

lemma validateChessMove_distinct_cells:
  assumes "validateChessMove s m c = None"
  shows "at (From m) \<noteq> at (To m)"
  using validateChessMove_NoneD(3,4) [OF assms] by auto

lemma ChessEngine_ValidateMove_NoneD:
  "ChessEngine_ValidateMove s m p = None \<Longrightarrow> validateChessMove s m (getPlayerColor s p) = None"
  by (simp add: ChessEngine_ValidateMove_def Let_def split: if_splits)

lemma applyChessMove_board:
  assumes "isValidPosition (From m)" "isValidPosition (To m)"
    "cBoard s (at (From m)) = Some piece"
  shows "\<exists>s' piece'. applyChessMove s m c = Inr s' \<and>
           cBoard s' = (cBoard s)(at (To m) := Some piece', at (From m) := None)"
proof -
  define piece' where "piece' =
     (if Type piece = ''pawn'' \<and> (Row (To m) = 0 \<or> Row (To m) = 7)
      then (if Promotion m \<noteq> [] then piece\<lparr>Type := Promotion m\<rparr>
            else piece\<lparr>Type := ''queen''\<rparr>)
      else piece)"
  have "\<exists>s'. applyChessMove s m c = Inr s' \<and>
           cBoard s' = (cBoard s)(at (To m) := Some piece', at (From m) := None)"
    using assms by (simp add: applyChessMove_def Let_def piece'_def [symmetric])
  then show ?thesis by blast
qed

lemma updateGameStatus_board: "cBoard (updateGameStatus s) = cBoard s"
  by (simp add: updateGameStatus_def Let_def)

lemma ChessEngine_ApplyMove_board:
  assumes "validateChessMove s m c = None"
  shows "\<exists>s' piece'. ChessEngine_ApplyMove s m p = Inr s' \<and>
           cBoard s' = (cBoard s)(at (To m) := Some piece', at (From m) := None)"
proof -
  from validateChessMove_NoneD [OF assms] obtain piece where
    v: "isValidPosition (From m)" "isValidPosition (To m)" "cBoard s (at (From m)) = Some piece"
    by auto
  from applyChessMove_board [OF v, of "getPlayerColor s p"] obtain s1 piece' where
    a: "applyChessMove s m (getPlayerColor s p) = Inr s1"
       "cBoard s1 = (cBoard s)(at (To m) := Some piece', at (From m) := None)"
    by blast
  define s3 where "s3 = s1\<lparr>cCurrentTurn := (if cCurrentTurn s1 = ''white'' then ''black'' else ''white''),
              MoveCount := MoveCount s1 + 1\<rparr>"
  have "ChessEngine_ApplyMove s m p = Inr (updateGameStatus s3)"
    using a(1) by (simp add: ChessEngine_ApplyMove_def Let_def s3_def)
  moreover have "cBoard (updateGameStatus s3) = (cBoard s)(at (To m) := Some piece', at (From m) := None)"
    using a(2) by (simp add: updateGameStatus_board s3_def)
  ultimately show ?thesis by blast
qed

lemma chess_validated_applies:
  "ChessEngine_ValidateMove s m p = None \<Longrightarrow> \<exists>s'. ChessEngine_ApplyMove s m p = Inr s'"
  using ChessEngine_ApplyMove_board [OF ChessEngine_ValidateMove_NoneD] by blast


lemma set_all_cells: "set all_cells = {0..7} \<times> {0..7}"
  by (auto simp: all_cells_def)

lemma valid_in_all_cells: "isValidPosition pos \<Longrightarrow> at pos \<in> set all_cells"
  by (auto simp: set_all_cells isValidPosition_def at_def)




lemma non_white_is_black:
  assumes "p \<noteq> WhitePlayer s"
  shows "getPlayerColor s p = ''black''"
    "ChessEngine_ValidateMove s m p =
       (if cCurrentTurn s \<noteq> ''black'' then Some NotPlayersTurn
        else if cGameEnded s then Some GameAlreadyEnded
        else validateChessMove s m ''black'')"
  using assms by (simp_all add: getPlayerColor_def ChessEngine_ValidateMove_def Let_def)

lemma stripped_candidate:
  "m\<lparr>Promotion := [], Castling := []\<rparr> = candidate (From m) (Row (To m)) (Col (To m))"
  by (simp add: candidate_def)

lemma validatePieceMove_endpoints:
  assumes "From m' = From m" "To m' = To m"
  shows "validatePieceMove s m' piece = validatePieceMove s m piece"
  by (simp only: validatePieceMove_def validatePawnMove_def validateRookMove_def
      validateKnightMove_def validateBishopMove_def validateQueenMove_def
      validateKingMove_def checkPathClear_def assms)

lemma validateChessMove_endpoints:
  assumes "From m' = From m" "To m' = To m"
  shows "validateChessMove s m' c = validateChessMove s m c"
  by (simp only: validateChessMove_def validatePieceMove_endpoints [OF assms] assms)

lemma validateChessMove_stripped:
  "validateChessMove s (m\<lparr>Promotion := [], Castling := []\<rparr>) c = validateChessMove s m c"
  by (rule validateChessMove_endpoints) simp_all

lemma in_slide:
  assumes "isValidPosition pos" "isValidPosition \<lparr>Row = r, Col = c\<rparr>"
    and "r = Row pos + dr * k" "c = Col pos + dc * k" "1 \<le> k" "k \<le> 7"
    and "dr = - 1 \<or> dr = 0 \<or> dr = 1" "dc = - 1 \<or> dc = 0 \<or> dc = 1"
  shows "candidate pos r c \<in> set (slide pos (dr, dc))"
proof -
  let ?P = "\<lambda>i. isValidPosition \<lparr>Row = Row pos + dr * i, Col = Col pos + dc * i\<rparr>"
  have split: "[1..7] = [1..k] @ [k + 1..7]"
    using assms(5,6) by (intro upto_split2) auto
  have "?P i" if "i \<in> set [1..k]" for i
  proof -
    from that have i: "1 \<le> i" "i \<le> k" by auto
    have "0 \<le> Row pos + dr * i \<and> Row pos + dr * i < 8"
      using assms(1,2,3,7) i by (auto simp: isValidPosition_def)
    moreover have "0 \<le> Col pos + dc * i \<and> Col pos + dc * i < 8"
      using assms(1,2,4,8) i by (auto simp: isValidPosition_def)
    ultimately show ?thesis by (simp add: isValidPosition_def)
  qed
  then have "takeWhile ?P [1..7] = [1..k] @ takeWhile ?P [k + 1..7]"
    unfolding split by (intro takeWhile_append2) auto
  moreover have "k \<in> set [1..k]" using assms(5) by simp
  ultimately have "k \<in> set (takeWhile ?P [1..7])" by simp
  then have "candidate pos (Row pos + dr * k) (Col pos + dc * k) \<in> set (slide pos (dr, dc))"
    by (simp add: slide_def image_iff) blast
  then show ?thesis using assms(3,4) by simp
qed

lemma pawn_target:
  assumes "isValidPosition (From m)" "isValidPosition (To m)"
    "validatePawnMove s m color = None"
  shows "Row (To m) = Row (From m) + (if color = ''black'' then - 1 else 1) \<and>
        (Col (To m) = Col (From m) \<or> Col (To m) = Col (From m) + - 1 \<or>
         Col (To m) = Col (From m) + 1)"
proof -
  define direction :: int where "direction = (if color = ''black'' then - 1 else 1)"
  define startRow :: int where "startRow = (if color = ''black'' then 1 else 6)"
  define rowDiff where "rowDiff = Row (To m) - Row (From m)"
  define colDiff where "colDiff = Col (To m) - Col (From m)"
  have two: "\<not> (rowDiff = 2 * direction \<and> Row (From m) = startRow)"
    using assms(2) by (auto simp: rowDiff_def direction_def startRow_def isValidPosition_def)
  have "(colDiff = 0 \<and> rowDiff = direction) \<or> (abs_int colDiff = 1 \<and> rowDiff = direction)"
  proof (rule ccontr)
    assume n: "\<not> ?thesis"
    have "validatePawnMove s m color = Some InvalidPawnMove"
      unfolding validatePawnMove_def Let_def
        direction_def [symmetric] startRow_def [symmetric] rowDiff_def [symmetric]
        colDiff_def [symmetric]
      using n two by auto
    with assms(3) show False by simp
  qed
  then show ?thesis
    unfolding direction_def [symmetric]
    by (auto simp: rowDiff_def colDiff_def abs_int_def split: if_splits)
qed

lemma pawn_complete:
  assumes "isValidPosition (From m)" "isValidPosition (To m)"
    "validatePawnMove s m color = None"
  shows "candidate (From m) (Row (To m)) (Col (To m)) \<in> set (generatePawnMoves s (From m) color)"
proof -
  define direction :: int where "direction = (if color = ''black'' then - 1 else 1)"
  have to: "isValidPosition \<lparr>Row = Row (To m), Col = Col (To m)\<rparr>"
    using assms(2) by (simp add: isValidPosition_def)
  have t: "Row (To m) = Row (From m) + direction"
    "Col (To m) = Col (From m) \<or> Col (To m) = Col (From m) + - 1 \<or>
         Col (To m) = Col (From m) + 1"
    using pawn_target [OF assms] by (simp_all add: direction_def)
  have g: "generatePawnMoves s (From m) color =
     (if isValidPosition \<lparr>Row = Row (From m) + direction, Col = Col (From m)\<rparr>
      then [candidate (From m) (Row (From m) + direction) (Col (From m))] else []) @
     (if isValidPosition \<lparr>Row = Row (From m) + direction, Col = Col (From m) + - 1\<rparr>
      then [candidate (From m) (Row (From m) + direction) (Col (From m) + - 1)] else []) @
     (if isValidPosition \<lparr>Row = Row (From m) + direction, Col = Col (From m) + 1\<rparr>
      then [candidate (From m) (Row (From m) + direction) (Col (From m) + 1)] else [])"
    by (simp add: generatePawnMoves_def Let_def direction_def)
  from t(2) show ?thesis
  proof (elim disjE)
    assume c: "Col (To m) = Col (From m)"
    with to t(1) show ?thesis unfolding g by simp
  next
    assume c: "Col (To m) = Col (From m) + - 1"
    with to t(1) show ?thesis unfolding g by simp
  next
    assume c: "Col (To m) = Col (From m) + 1"
    with to t(1) show ?thesis unfolding g by simp
  qed
qed

lemma on_line_in_slides:
  assumes "isValidPosition pos" "isValidPosition \<lparr>Row = r, Col = c\<rparr>"
    and "r = Row pos + dr * k" "c = Col pos + dc * k" "1 \<le> k"
    and "dr = - 1 \<or> dr = 0 \<or> dr = 1" "dc = - 1 \<or> dc = 0 \<or> dc = 1" "dr \<noteq> 0 \<or> dc \<noteq> 0"
    and "(dr, dc) \<in> set dirs"
  shows "candidate pos r c \<in> set (concat (map (slide pos) dirs))"
proof -
  have "k \<le> 7"
    using assms(1-8) by (auto simp: isValidPosition_def)
  from in_slide [OF assms(1,2,3,4,5) this assms(6,7)] assms(9)
  show ?thesis by auto
qed

lemma rook_complete:
  assumes "isValidPosition (From m)" "isValidPosition (To m)" "at (From m) \<noteq> at (To m)"
    and "Row (From m) = Row (To m) \<or> Col (From m) = Col (To m)"
  shows "candidate (From m) (Row (To m)) (Col (To m)) \<in> set (generateRookMoves (From m))"
proof -
  have to: "isValidPosition \<lparr>Row = Row (To m), Col = Col (To m)\<rparr>"
    using assms(2) by (simp add: isValidPosition_def)
  let ?dirs = "[(0, 1), (0, - 1), (1, 0), (- 1, 0)] :: (int \<times> int) list"
  consider (e) "Row (To m) = Row (From m)" "Col (To m) > Col (From m)"
    | (w) "Row (To m) = Row (From m)" "Col (To m) < Col (From m)"
    | (s) "Col (To m) = Col (From m)" "Row (To m) > Row (From m)"
    | (n) "Col (To m) = Col (From m)" "Row (To m) < Row (From m)"
    using assms(3,4) unfolding at_def prod.inject by linarith
  then show ?thesis
  proof cases
    case e
    then show ?thesis unfolding generateRookMoves_def
      by (intro on_line_in_slides [OF assms(1) to, of 0 "Col (To m) - Col (From m)" 1]) auto
  next
    case w
    then show ?thesis unfolding generateRookMoves_def
      by (intro on_line_in_slides [OF assms(1) to, of 0 "Col (From m) - Col (To m)" "- 1"]) auto
  next
    case s
    then show ?thesis unfolding generateRookMoves_def
      by (intro on_line_in_slides [OF assms(1) to, of 1 "Row (To m) - Row (From m)" 0]) auto
  next
    case n
    then show ?thesis unfolding generateRookMoves_def
      by (intro on_line_in_slides [OF assms(1) to, of "- 1" "Row (From m) - Row (To m)" 0]) auto
  qed
qed

lemma bishop_complete:
  assumes "isValidPosition (From m)" "isValidPosition (To m)" "at (From m) \<noteq> at (To m)"
    and "abs_int (Row (To m) - Row (From m)) = abs_int (Col (To m) - Col (From m))"
  shows "candidate (From m) (Row (To m)) (Col (To m)) \<in> set (generateBishopMoves (From m))"
proof -
  have to: "isValidPosition \<lparr>Row = Row (To m), Col = Col (To m)\<rparr>"
    using assms(2) by (simp add: isValidPosition_def)
  define k where "k = abs_int (Row (To m) - Row (From m))"
  have ai: "abs_int x = \<bar>x\<bar>" for x by (simp add: abs_int_def)
  have k: "1 \<le> k" using assms(3,4) unfolding k_def ai at_def prod.inject by linarith
  consider (se) "Row (To m) = Row (From m) + k" "Col (To m) = Col (From m) + k"
    | (sw) "Row (To m) = Row (From m) + k" "Col (To m) = Col (From m) - k"
    | (ne) "Row (To m) = Row (From m) - k" "Col (To m) = Col (From m) + k"
    | (nw) "Row (To m) = Row (From m) - k" "Col (To m) = Col (From m) - k"
    using assms(4) unfolding k_def ai by linarith
  then show ?thesis
  proof cases
    case se
    then show ?thesis unfolding generateBishopMoves_def using k
      by (intro on_line_in_slides [OF assms(1) to, of 1 k 1]) auto
  next
    case sw
    then show ?thesis unfolding generateBishopMoves_def using k
      by (intro on_line_in_slides [OF assms(1) to, of 1 k "- 1"]) auto
  next
    case ne
    then show ?thesis unfolding generateBishopMoves_def using k
      by (intro on_line_in_slides [OF assms(1) to, of "- 1" k 1]) auto
  next
    case nw
    then show ?thesis unfolding generateBishopMoves_def using k
      by (intro on_line_in_slides [OF assms(1) to, of "- 1" k "- 1"]) auto
  qed
qed

lemma in_hops:
  assumes "isValidPosition \<lparr>Row = r, Col = c\<rparr>" "r = Row pos + dr" "c = Col pos + dc"
    "(dr, dc) \<in> set dirs"
  shows "candidate pos r c \<in> set (concat (map (hop pos) dirs))"
proof -
  have "candidate pos r c \<in> set (hop pos (dr, dc))"
    using assms(1,2,3) by (simp add: hop_def Let_def)
  with assms(4) show ?thesis by auto
qed

lemma knight_complete:
  assumes "isValidPosition (To m)" "validateKnightMove m = None"
  shows "candidate (From m) (Row (To m)) (Col (To m)) \<in> set (generateKnightMoves (From m))"
proof -
  have to: "isValidPosition \<lparr>Row = Row (To m), Col = Col (To m)\<rparr>"
    using assms(1) by (simp add: isValidPosition_def)
  define dr where "dr = Row (To m) - Row (From m)"
  define dc where "dc = Col (To m) - Col (From m)"
  have "(abs_int dr = 2 \<and> abs_int dc = 1) \<or> (abs_int dr = 1 \<and> abs_int dc = 2)"
    using assms(2) by (simp add: validateKnightMove_def Let_def dr_def dc_def split: if_splits)
  then have "(dr, dc) \<in> set [(2, 1), (2, - 1), (- 2, 1), (- 2, - 1), (1, 2), (1, - 2), (- 1, 2), (- 1, - 2)]"
    by (auto simp: abs_int_def split: if_splits)
  then show ?thesis unfolding generateKnightMoves_def
    by (intro in_hops [OF to, of _ dr dc]) (simp_all add: dr_def dc_def)
qed

lemma king_complete:
  assumes "isValidPosition (To m)" "validateKingMove m = None"
  shows "candidate (From m) (Row (To m)) (Col (To m)) \<in> set (generateKingMoves (From m))"
proof -
  have to: "isValidPosition \<lparr>Row = Row (To m), Col = Col (To m)\<rparr>"
    using assms(1) by (simp add: isValidPosition_def)
  define dr where "dr = Row (To m) - Row (From m)"
  define dc where "dc = Col (To m) - Col (From m)"
  have "abs_int dr \<le> 1 \<and> abs_int dc \<le> 1 \<and> (abs_int dr \<noteq> 0 \<or> abs_int dc \<noteq> 0)"
    using assms(2) by (simp add: validateKingMove_def Let_def dr_def dc_def split: if_splits)
  then have "(dr, dc) \<in> set [(0, 1), (0, - 1), (1, 0), (- 1, 0), (1, 1), (1, - 1), (- 1, 1), (- 1, - 1)]"
    by (auto simp: abs_int_def split: if_splits)
  then show ?thesis unfolding generateKingMoves_def
    by (intro in_hops [OF to, of _ dr dc]) (simp_all add: dr_def dc_def)
qed

lemma piece_complete:
  assumes "isValidPosition (From m)" "isValidPosition (To m)" "at (From m) \<noteq> at (To m)"
    and "validatePieceMove s m piece = None"
  shows "candidate (From m) (Row (To m)) (Col (To m)) \<in> set (generatePieceMoves s (From m) piece)"
proof -
  consider (pawn) "Type piece = ''pawn''" | (rook) "Type piece = ''rook''"
    | (knight) "Type piece = ''knight''" | (bishop) "Type piece = ''bishop''"
    | (queen) "Type piece = ''queen''" | (king) "Type piece = ''king''"
    using assms(4) by (auto simp: validatePieceMove_def split: if_splits)
  then show ?thesis
  proof cases
    case pawn
    with assms(4) have "validatePawnMove s m (Color piece) = None"
      by (simp add: validatePieceMove_def)
    from pawn_complete [OF assms(1,2) this] pawn show ?thesis
      by (simp add: generatePieceMoves_def)
  next
    case rook
    with assms(4) have "validateRookMove s m = None" by (simp add: validatePieceMove_def)
    then have "Row (From m) = Row (To m) \<or> Col (From m) = Col (To m)"
      by (auto simp: validateRookMove_def split: if_splits)
    from rook_complete [OF assms(1,2,3) this] rook show ?thesis
      by (simp add: generatePieceMoves_def)
  next
    case knight
    with assms(4) have "validateKnightMove m = None" by (simp add: validatePieceMove_def)
    from knight_complete [OF assms(2) this] knight show ?thesis
      by (simp add: generatePieceMoves_def)
  next
    case bishop
    with assms(4) have "validateBishopMove s m = None" by (simp add: validatePieceMove_def)
    then have "abs_int (Row (To m) - Row (From m)) = abs_int (Col (To m) - Col (From m))"
      by (auto simp: validateBishopMove_def Let_def split: if_splits)
    from bishop_complete [OF assms(1,2,3) this] bishop show ?thesis
      by (simp add: generatePieceMoves_def)
  next
    case queen
    with assms(4) have "validateQueenMove s m = None" by (simp add: validatePieceMove_def)
    then have "validateRookMove s m = None \<or> validateBishopMove s m = None"
      by (auto simp: validateQueenMove_def split: if_splits)
    then have "(Row (From m) = Row (To m) \<or> Col (From m) = Col (To m)) \<or>
       abs_int (Row (To m) - Row (From m)) = abs_int (Col (To m) - Col (From m))"
      by (auto simp: validateRookMove_def validateBishopMove_def Let_def split: if_splits)
    then have "candidate (From m) (Row (To m)) (Col (To m)) \<in>
        set (generateRookMoves (From m)) \<union> set (generateBishopMoves (From m))"
      using rook_complete [OF assms(1,2,3)] bishop_complete [OF assms(1,2,3)] by blast
    with queen show ?thesis
      by (simp add: generatePieceMoves_def generateQueenMoves_def)
  next
    case king
    with assms(4) have "validateKingMove m = None" by (simp add: validatePieceMove_def)
    from king_complete [OF assms(2) this] king show ?thesis
      by (simp add: generatePieceMoves_def)
  qed
qed

lemma possible_moves_complete:
  assumes "validateChessMove s m c = None"
  shows "m\<lparr>Promotion := [], Castling := []\<rparr> \<in> set (concat (map (movesFromCell s c) all_cells))"
proof -
  let ?m' = "m\<lparr>Promotion := [], Castling := []\<rparr>"
  from validateChessMove_NoneD [OF assms] obtain piece where
    v: "isValidPosition (From m)" "isValidPosition (To m)"
      "cBoard s (at (From m)) = Some piece" "Color piece = c" "validatePieceMove s m piece = None"
    by auto
  have g: "?m' \<in> set (generatePieceMoves s (From m) piece)"
    using piece_complete [OF v(1,2) validateChessMove_distinct_cells [OF assms] v(5)]
    by (simp add: stripped_candidate)
  have pos: "\<lparr>Row = fst (at (From m)), Col = snd (at (From m))\<rparr> = From m"
    by (simp add: at_def)
  have "?m' \<in> set (movesFromCell s c (at (From m)))"
    using g v(3,4) assms
    by (simp add: movesFromCell_def pos validateChessMove_stripped)
  with valid_in_all_cells [OF v(1)] show ?thesis by auto
qed

lemma slide_untagged: "m \<in> set (slide pos d) \<Longrightarrow> Promotion m = [] \<and> Castling m = []"
  by (auto simp: slide_def candidate_def)

lemma hop_untagged: "m \<in> set (hop pos d) \<Longrightarrow> Promotion m = [] \<and> Castling m = []"
  by (auto simp: hop_def candidate_def Let_def split: if_splits)

lemma generated_untagged:
  "m \<in> set (generatePieceMoves s pos piece) \<Longrightarrow> Promotion m = [] \<and> Castling m = []"
  unfolding generatePieceMoves_def generateRookMoves_def generateBishopMoves_def
    generateQueenMoves_def generateKnightMoves_def generateKingMoves_def
  by (auto simp: generatePawnMoves_def candidate_def Let_def
      dest: slide_untagged hop_untagged split: if_splits)

lemma possible_moves_untagged:
  assumes "m \<in> set (ChessEngine_GetPossibleMoves s p)"
  shows "Promotion m = [] \<and> Castling m = []"
proof -
  from assms obtain cell where
    "m \<in> set (movesFromCell s (getPlayerColor s p) cell)"
    by (auto simp: ChessEngine_GetPossibleMoves_def Let_def)
  then obtain pos piece where "m \<in> set (generatePieceMoves s pos piece)"
    by (auto simp: movesFromCell_def split: option.splits if_splits)
  then show ?thesis by (rule generated_untagged)
qed

section \<open>Properties of the matchmaking service\<close>

lemma quot_toward_zero_mono:
  assumes M: "0 < b" and de: "d \<le> e"
  shows "quot_toward_zero d b \<le> quot_toward_zero e b"
proof (cases "d < 0")
  case dneg: True
  show ?thesis
  proof (cases "e < 0")
    case True
    with de have "- e \<le> - d" by simp
    then have "(- e) div b \<le> (- d) div b" by (rule zdiv_mono1) (rule M)
    with dneg True show ?thesis by (simp add: quot_toward_zero_def)
  next
    case False
    then have "0 \<le> e div b" using M by (simp add: pos_imp_zdiv_nonneg_iff)
    moreover have "0 \<le> (- d) div b" using dneg M by (simp add: pos_imp_zdiv_nonneg_iff)
    ultimately show ?thesis using dneg False by (simp add: quot_toward_zero_def)
  qed
next
  case False
  with de have "\<not> e < 0" by simp
  with False de M show ?thesis by (simp add: quot_toward_zero_def zdiv_mono1)
qed

lemma Minute_pos: "0 < Minute"
  by (simp add: Minute_def)

lemma exact_minutes_go: "go_minutes exact_minutes"
  by (simp add: go_minutes_def exact_minutes_def quot_toward_zero_mono Minute_pos)

lemma go_minutes_exact:
  "go_minutes minutesOf \<Longrightarrow> 0 \<le> d \<Longrightarrow> d < 2 ^ 18 * Minute \<Longrightarrow> minutesOf d = d div Minute"
proof -
  assume g: "go_minutes minutesOf" and d: "0 \<le> d" "d < 2 ^ 18 * Minute"
  have "- (2 ^ 18 * Minute) < d" using d(1) Minute_pos by (simp add: Minute_def)
  with g d have "minutesOf d = quot_toward_zero d Minute" by (simp add: go_minutes_def)
  with d(1) show ?thesis by (simp add: quot_toward_zero_def)
qed

lemma go_minutes_mono: "go_minutes minutesOf \<Longrightarrow> d \<le> e \<Longrightarrow> minutesOf d \<le> minutesOf e"
  by (simp add: go_minutes_def)

lemma tolerance_clamped:
  "calculateRatingTolerance minutesOf w =
     min (ratingTolerance + minutesOf w * 20) maxRatingTolerance"
  by (simp add: calculateRatingTolerance_def Let_def min_def)

lemma tolerance_mono:
  "go_minutes minutesOf \<Longrightarrow> w \<le> w' \<Longrightarrow>
   calculateRatingTolerance minutesOf w \<le> calculateRatingTolerance minutesOf w'"
  using go_minutes_mono [of minutesOf w w'] by (simp add: tolerance_clamped min_def)

lemma tolerance_floor:
  assumes g: "go_minutes minutesOf" and w: "0 \<le> w"
  shows "calculateRatingTolerance minutesOf w = spec_floor_tolerance w"
proof (cases "w < 2 ^ 18 * Minute")
  case True
  with go_minutes_exact [OF g w] show ?thesis
    by (simp add: tolerance_clamped spec_floor_tolerance_def)
next
  case False
  let ?e = "2 ^ 18 * Minute - 1"
  have e: "0 \<le> ?e" "?e < 2 ^ 18 * Minute" "?e \<le> w"
    using False by (simp_all add: Minute_def)
  have "minutesOf ?e = ?e div Minute" by (rule go_minutes_exact [OF g e(1,2)])
  also have "\<dots> = 262143" by (simp add: Minute_def)
  finally have "262143 \<le> minutesOf w" using go_minutes_mono [OF g e(3)] by simp
  moreover have "262143 \<le> w div Minute"
  proof -
    have "?e div Minute \<le> w div Minute" using e(3) Minute_pos by (rule zdiv_mono1)
    then show ?thesis by (simp add: Minute_def)
  qed
  ultimately show ?thesis
    by (simp add: tolerance_clamped spec_floor_tolerance_def ratingTolerance_def
        maxRatingTolerance_def min_def)
qed

lemma tolerance_bounded: "calculateRatingTolerance minutesOf w \<le> maxRatingTolerance"
  by (simp add: tolerance_clamped)


lemma sweep_of_two:
  assumes q: "ZRange (queue st) = [a, b]"
    and ra: "getMatchmakingRequest st now a = Some ra"
    and rb: "getMatchmakingRequest st now b = Some rb"
  shows "processMatchmaking minutesOf createMatch now st =
     (if abs_int (Rating ra - Rating rb) \<le>
           calculateRatingTolerance minutesOf (now - JoinedAt ra) \<and> createMatch ra rb
      then (st\<lparr>queue := ZRem (queue st) [a, b],
               requests := (requests st)(a := None, b := None)\<rparr>, Some (a, b))
      else (st, None))"
proof -
  have m: "matchLoop minutesOf createMatch st now [a, b] =
     (if abs_int (Rating ra - Rating rb) \<le>
           calculateRatingTolerance minutesOf (now - JoinedAt ra) \<and> createMatch ra rb
      then Some (a, b) else None)"
    by (simp add: ra rb Let_def)
  have p: "matchPlayers minutesOf createMatch now st [a, b] =
     (if abs_int (Rating ra - Rating rb) \<le>
           calculateRatingTolerance minutesOf (now - JoinedAt ra) \<and> createMatch ra rb
      then (st\<lparr>queue := ZRem (queue st) [a, b],
               requests := (requests st)(a := None, b := None)\<rparr>, Some (a, b))
      else (st, None))"
    unfolding matchPlayers_def m by simp
  show ?thesis
    by (simp add: processMatchmaking_def q p)
qed


lemma two_joined_eq:
  "two_joined t0 =
     \<lparr>queue = [(1, t0 div 1000000000), (2, t0 div 1000000000)],
      requests = [1 \<mapsto> (\<lparr>UserID = 1, GameType = ''chess'', Rating = 1000, JoinedAt = t0\<rparr>,
                         t0 + matchmakingTimeout),
                  2 \<mapsto> (\<lparr>UserID = 2, GameType = ''chess'', Rating = 1300, JoinedAt = t0\<rparr>,
                         t0 + matchmakingTimeout)]\<rparr>"
  by (simp add: two_joined_def JoinQueue_def ZScore_def ZAdd_def emptyStore_def)

lemma range_two_joined: "ZRange (queue (two_joined t0)) = [1, 2]"
  by (simp add: two_joined_eq ZRange_def)

lemma get_two_joined:
  "getMatchmakingRequest (two_joined t0) now 1 =
     (if now > t0 + matchmakingTimeout then None
      else Some \<lparr>UserID = 1, GameType = ''chess'', Rating = 1000, JoinedAt = t0\<rparr>)"
  "getMatchmakingRequest (two_joined t0) now 2 =
     (if now > t0 + matchmakingTimeout then None
      else Some \<lparr>UserID = 2, GameType = ''chess'', Rating = 1300, JoinedAt = t0\<rparr>)"
  by (simp_all add: two_joined_eq getMatchmakingRequest_def store_Get_def)




text \<open>
  On the states that \<^verbatim>\<open>JoinQueue\<close> produces the payload is gone five minutes after the
  join, when the tolerance has reached 200 at most.
\<close>

lemma tolerance_while_alive:
  assumes g: "go_minutes minutesOf" and "now \<le> t0 + matchmakingTimeout"
  shows "calculateRatingTolerance minutesOf (now - t0) \<le> 200"
proof -
  have "now - t0 \<le> 5 * Minute" using assms(2) by (simp add: matchmakingTimeout_def)
  then have "minutesOf (now - t0) \<le> minutesOf (5 * Minute)" by (rule go_minutes_mono [OF g])
  also have "minutesOf (5 * Minute) = (5 * Minute) div Minute"
    by (rule go_minutes_exact [OF g]) (simp_all add: Minute_def)
  also have "\<dots> = 5" by (simp add: Minute_def)
  finally show ?thesis
    by (simp add: tolerance_clamped ratingTolerance_def maxRatingTolerance_def)
qed

lemma sweep_two_joined:
  assumes g: "go_minutes minutesOf"
  shows "processMatchmaking minutesOf createMatch now (two_joined t0) = (two_joined t0, None)"
proof (cases "now > t0 + matchmakingTimeout")
  case True
  then have "matchLoop minutesOf createMatch (two_joined t0) now [1, 2] = None"
    by (simp add: get_two_joined)
  then have "matchPlayers minutesOf createMatch now (two_joined t0) [1, 2] = (two_joined t0, None)"
    unfolding matchPlayers_def by simp
  then show ?thesis
    by (simp add: processMatchmaking_def range_two_joined)
next
  case False
  then have "calculateRatingTolerance minutesOf (now - t0) \<le> 200"
    by (intro tolerance_while_alive [OF g]) simp
  then have "\<not> abs_int (1000 - 1300) \<le> calculateRatingTolerance minutesOf (now - t0)"
    by (simp add: abs_int_def)
  moreover have
    "getMatchmakingRequest (two_joined t0) now 1 =
       Some \<lparr>UserID = 1, GameType = ''chess'', Rating = 1000, JoinedAt = t0\<rparr>"
    "getMatchmakingRequest (two_joined t0) now 2 =
       Some \<lparr>UserID = 2, GameType = ''chess'', Rating = 1300, JoinedAt = t0\<rparr>"
    using False by (simp_all add: get_two_joined)
  note sweep_of_two [OF range_two_joined this]
  ultimately show ?thesis by simp
qed

section \<open>Properties of the session hub\<close>

lemma join_gives_alone:
  "run NewHub ([Register 1, Join 1 ''r''] @ ops) = run (alone_in_room 1) ops"
  by (simp add: NewHub_def HandleWebSocket_def registerClient_def JoinRoom_def returned_def
      broadcastToRoom_def sendCapacity_def alone_in_room_def Let_def)

lemma broadcast_alone:
  "k < 256 \<Longrightarrow> dispatch (alone_in_room k) (RoomBroadcast ''r'') = Inr (alone_in_room (Suc k))"
  by (simp add: BroadcastToRoom_def broadcastToRoom_def sendCapacity_def alone_in_room_def)

lemma broadcasts_alone:
  "k + n \<le> 256 \<Longrightarrow>
   run (alone_in_room k) (replicate n (RoomBroadcast ''r'') @ ops) = run (alone_in_room (k + n)) ops"
proof (induction n arbitrary: k)
  case 0
  then show ?case by simp
next
  case (Suc n)
  then have "k < 256" "Suc k + n \<le> 256" by simp_all
  with Suc.IH [of "Suc k"] show ?case by (simp add: broadcast_alone del: dispatch.simps)
qed

lemma broadcast_full:
  "dispatch (alone_in_room 256) (RoomBroadcast ''r'') =
     Inr \<lparr>heap = [1 \<mapsto> \<lparr>Send = 256, SendClosed = True, Rooms = [''r'']\<rparr>],
          clients = [1], rooms = [''r'' \<mapsto> []]\<rparr>"
  by (simp add: BroadcastToRoom_def broadcastToRoom_def sendCapacity_def alone_in_room_def)

section \<open>The examples evaluated\<close>

lemma upto_0_7: "[0..7] = [0, 1, 2, 3, 4, 5, 6, (7::int)]"
  by code_simp

lemma init_fields:
  "cCurrentTurn ChessEngine_Initialize = ''white''"
  "WhitePlayer ChessEngine_Initialize = uuid_Nil"
  "\<not> cGameEnded ChessEngine_Initialize"
  "EnPassantTarget ChessEngine_Initialize = None"
  by (simp_all add: ChessEngine_Initialize_def setupInitialBoard_def Let_def)

lemma init_board_eval:
  "cBoard ChessEngine_Initialize (7, 1) = Some \<lparr>Type = ''knight'', Color = ''white''\<rparr>"
  "cBoard ChessEngine_Initialize (5, 2) = None"
  "cBoard ChessEngine_Initialize (0, 1) = Some \<lparr>Type = ''knight'', Color = ''black''\<rparr>"
  "cBoard ChessEngine_Initialize (2, 2) = None"
  by (simp_all add: ChessEngine_Initialize_def setupInitialBoard_def Let_def upto_0_7)

lemma knight_validates:
  "ChessEngine_ValidateMove ChessEngine_Initialize example_knight_move uuid_Nil = None"
  by (simp add: ChessEngine_ValidateMove_def getPlayerColor_def init_fields init_board_eval
      validateChessMove_def isValidPosition_def at_def example_knight_move_def
      validatePieceMove_def validateKnightMove_def abs_int_def Let_def)

lemma black_knight_validates:
  "ChessEngine_ValidateMove example_black_to_move example_black_knight_move 3 = None"
  by (simp add: ChessEngine_ValidateMove_def getPlayerColor_def example_black_to_move_def
      init_fields init_board_eval
      validateChessMove_def isValidPosition_def at_def example_black_knight_move_def
      validatePieceMove_def validateKnightMove_def abs_int_def Let_def)

lemma pathLoop_rook_capture:
  "pathLoop (cBoard example_endgame) \<lparr>Row = 4, Col = 4\<rparr> \<lparr>Row = 4, Col = 6\<rparr> 1 = None"
  by (simp add: pathLoop.simps [of _ _ _ 1] pathLoop.simps [of _ _ _ 2] rowDir_of_def colDir_of_def
      example_endgame_def Let_def)

lemma rook_capture_validates:
  "ChessEngine_ValidateMove example_endgame example_rook_capture 1 = None"
  by (simp add: ChessEngine_ValidateMove_def getPlayerColor_def example_endgame_def
      init_fields validateChessMove_def isValidPosition_def at_def example_rook_capture_def
      validatePieceMove_def validateRookMove_def checkPathClear_def Let_def
      pathLoop_rook_capture [unfolded example_endgame_def, simplified])

lemma underpromotion_validates:
  "ChessEngine_ValidateMove example_endgame example_underpromotion 1 = None"
  by (simp add: ChessEngine_ValidateMove_def getPlayerColor_def example_endgame_def
      init_fields validateChessMove_def isValidPosition_def at_def example_underpromotion_def
      validatePieceMove_def validatePawnMove_def Let_def)

lemma first_play_validates:
  "DominoEngine_ValidateMove example_dominoes example_first_play 1 = None"
  by (simp add: DominoEngine_ValidateMove_def example_dominoes_def example_first_play_def
      hand_of_def tileMatches_def)

lemma midgame_facts:
  "CurrentTurn example_dominoes_midgame = 2" "\<not> GameEnded example_dominoes_midgame"
  "\<exists>m \<in> set (DominoEngine_GetPossibleMoves example_dominoes_midgame 2). \<not> Pass m"
  "Pass example_pass"
  by (simp_all add: example_dominoes_midgame_def example_pass_def
      DominoEngine_GetPossibleMoves_def hand_of_def validateTilePlacement_def Let_def)




section \<open>The claims\<close>

text \<open>
  Claim C1. Every state produced by \<^verbatim>\<open>DominoEngine.Initialize\<close> should give each of
  the two players a hand of 7 tiles, a boneyard of 14 and an empty board, the player
  holding the highest tile starting. The code does not: for every outcome of the shuffle
  the two player identifiers of the produced state are both the zero identifier, the one
  hand stored under it holds 14 tiles (so the hand read for player 1 and the hand read
  for player 2 are the same 14 tiles), and the turn goes to the zero identifier. The
  boneyard does hold 14 tiles and the board is empty.
\<close>

theorem C1_Initialize_deals_one_hand_of_fourteen:
  "\<exists>s. DominoEngine_Initialize rnd = Inr s \<and>
     Player1ID s = uuid_Nil \<and> Player2ID s = uuid_Nil \<and> CurrentTurn s = uuid_Nil \<and>
     length (hand_of s (Player1ID s)) = 14 \<and> length (hand_of s (Player2ID s)) = 14 \<and>
     length (BoneYard s) = 14 \<and> Board s = []"
  using Initialize_shape [of rnd] by auto

text \<open>
  Claim C2. The hand of player 1, the hand of player 2, the board and the boneyard should
  count 28 tiles together in every reachable state. Already in the state that
  \<^verbatim>\<open>Initialize\<close> produces they count 42, for every outcome of the shuffle: the two
  hands are one and the same list of 14 tiles. The defect is in \<^verbatim>\<open>Initialize\<close> alone:
  \<^verbatim>\<open>ApplyMove\<close> conserves the count from any state whose two player identifiers
  differ (lemma \<open>apply_conserves_tiles\<close>).
\<close>

theorem C2_initial_tile_count_is_42:
  "\<exists>s. DominoEngine_Initialize rnd = Inr s \<and> tile_count s = 42"
  using Initialize_shape [of rnd] by (auto simp: tile_count_def)

text \<open>
  Claim C3. For both engines: when \<^verbatim>\<open>ValidateMove(s, m, p)\<close> returns nil, then
  \<^verbatim>\<open>ApplyMove(s, m, p)\<close> returns a new state and no error (and does not panic).
\<close>

theorem C3_validated_move_applies:
  "(DominoEngine_ValidateMove ds dm p = None \<longrightarrow>
      (\<exists>ds'. DominoEngine_ApplyMove ds dm p = Inr ds')) \<and>
   (ChessEngine_ValidateMove cs cm q = None \<longrightarrow>
      (\<exists>cs'. ChessEngine_ApplyMove cs cm q = Inr cs'))"
  using domino_validated_applies [of ds dm p] chess_validated_applies [of cs cm q] by blast

theorem C3_validated_move_applies_witness:
  "DominoEngine_ValidateMove example_dominoes example_first_play 1 = None \<and>
   (\<exists>ds'. DominoEngine_ApplyMove example_dominoes example_first_play 1 = Inr ds') \<and>
   ChessEngine_ValidateMove ChessEngine_Initialize example_knight_move uuid_Nil = None \<and>
   (\<exists>cs'. ChessEngine_ApplyMove ChessEngine_Initialize example_knight_move uuid_Nil = Inr cs')"
  using C3_validated_move_applies [of example_dominoes example_first_play 1
      ChessEngine_Initialize example_knight_move uuid_Nil]
    first_play_validates knight_validates
  by simp


text \<open>
  Claim C5 says that every move with \<^verbatim>\<open>ValidateMove(s, m, p)\<close> nil appears in the list
  of \<^verbatim>\<open>GetPossibleMoves(s, p)\<close>. As stated it fails: in the endgame position the
  under-promotion of the white pawn from (6, 0) to (7, 0), promotion tag "knight", is
  validated for the white player, and the list does not hold it.
\<close>

theorem C5_counterexample_underpromotion_not_listed:
  "ChessEngine_ValidateMove example_endgame example_underpromotion 1 = None \<and>
   example_underpromotion \<notin> set (ChessEngine_GetPossibleMoves example_endgame 1)"
proof -
  have "Promotion example_underpromotion \<noteq> []"
    by (simp add: example_underpromotion_def)
  then have "example_underpromotion \<notin> set (ChessEngine_GetPossibleMoves example_endgame 1)"
    using possible_moves_untagged [of example_underpromotion example_endgame 1] by blast
  with underpromotion_validates show ?thesis by simp
qed

text \<open>
  Claim C5 as amended. \<^verbatim>\<open>GetPossibleMoves\<close> is complete up to the promotion and
  castling tags, which it always leaves empty: for every chess state \<open>s\<close>, player \<open>p\<close>
  and move \<open>m\<close> with \<^verbatim>\<open>ValidateMove(s, m, p)\<close> nil, the move with the endpoints of
  \<open>m\<close> and both tags empty is in the list of \<^verbatim>\<open>GetPossibleMoves(s, p)\<close>, and \<open>m\<close>
  itself is in the list exactly when its two tags are empty.
\<close>

theorem C5_possible_moves_complete_up_to_tags:
  assumes "ChessEngine_ValidateMove s m p = None"
  shows "m\<lparr>Promotion := [], Castling := []\<rparr> \<in> set (ChessEngine_GetPossibleMoves s p) \<and>
    (m \<in> set (ChessEngine_GetPossibleMoves s p) \<longleftrightarrow> Promotion m = [] \<and> Castling m = [])"
proof -
  have v: "validateChessMove s m (getPlayerColor s p) = None"
    using assms by (rule ChessEngine_ValidateMove_NoneD)
  have 1: "m\<lparr>Promotion := [], Castling := []\<rparr> \<in> set (ChessEngine_GetPossibleMoves s p)"
    using possible_moves_complete [OF v] by (simp add: ChessEngine_GetPossibleMoves_def Let_def)
  have 2: "m \<in> set (ChessEngine_GetPossibleMoves s p)" if "Promotion m = [] \<and> Castling m = []"
  proof -
    from that have "m\<lparr>Promotion := [], Castling := []\<rparr> = m" by simp
    with 1 show ?thesis by simp
  qed
  from 1 2 possible_moves_untagged [of m s p] show ?thesis by blast
qed

theorem C5_possible_moves_complete_up_to_tags_witness:
  "ChessEngine_ValidateMove example_endgame example_underpromotion 1 = None \<and>
   example_underpromotion\<lparr>Promotion := [], Castling := []\<rparr>
     \<in> set (ChessEngine_GetPossibleMoves example_endgame 1) \<and>
   ChessEngine_ValidateMove ChessEngine_Initialize example_knight_move uuid_Nil = None \<and>
   example_knight_move \<in> set (ChessEngine_GetPossibleMoves ChessEngine_Initialize uuid_Nil)"
proof -
  have "Promotion example_knight_move = [] \<and> Castling example_knight_move = []"
    by (simp add: example_knight_move_def)
  with C5_possible_moves_complete_up_to_tags [OF underpromotion_validates]
    C5_possible_moves_complete_up_to_tags [OF knight_validates]
    underpromotion_validates knight_validates
  show ?thesis by blast
qed

text \<open>
  Claim C6, the must-play rule. For every domino state \<open>s\<close> and player \<open>p\<close> whose turn
  it is in a game that has not ended: if \<^verbatim>\<open>GetPossibleMoves(s, p)\<close> contains at least
  one move that is not a pass, then \<^verbatim>\<open>ValidateMove\<close> rejects every pass of \<open>p\<close>, with
  the error "player must play if possible".
\<close>

theorem C6_pass_rejected_when_a_play_exists:
  assumes "CurrentTurn s = p" and "\<not> GameEnded s"
    and "\<exists>m \<in> set (DominoEngine_GetPossibleMoves s p). \<not> Pass m"
    and "Pass pm"
  shows "DominoEngine_ValidateMove s pm p = Some PlayerMustPlayIfPossible"
  using assms by (rule pass_rejected_when_playable)

theorem C6_pass_rejected_when_a_play_exists_witness:
  "CurrentTurn example_dominoes_midgame = 2 \<and> \<not> GameEnded example_dominoes_midgame \<and>
   (\<exists>m \<in> set (DominoEngine_GetPossibleMoves example_dominoes_midgame 2). \<not> Pass m) \<and>
   Pass example_pass \<and>
   DominoEngine_ValidateMove example_dominoes_midgame example_pass 2 =
     Some PlayerMustPlayIfPossible"
  using C6_pass_rejected_when_a_play_exists [OF midgame_facts] midgame_facts by blast

text \<open>
  Claim C7. The effective rating tolerance, as a function of the wait, equals the base
  tolerance plus floor of the wait in minutes times the step, clamped to the configured
  maximum; it is monotonically non-decreasing in the wait and never exceeds the maximum.
  A wait is a duration that is not negative; the monotonicity and the bound are proved
  for every duration. The conversion \<^verbatim>\<open>int(waitTime.Minutes())\<close> is any function that
  meets \<open>go_minutes\<close>.
\<close>

theorem C7_tolerance_is_clamped_floor_and_monotone:
  assumes "go_minutes minutesOf"
  shows "(0 \<le> w \<longrightarrow> calculateRatingTolerance minutesOf w = spec_floor_tolerance w) \<and>
    (w \<le> w' \<longrightarrow>
       calculateRatingTolerance minutesOf w \<le> calculateRatingTolerance minutesOf w') \<and>
    calculateRatingTolerance minutesOf w \<le> maxRatingTolerance"
  using tolerance_floor [OF assms, of w] tolerance_mono [OF assms, of w w']
    tolerance_bounded [of minutesOf w]
  by blast

theorem C7_tolerance_is_clamped_floor_and_monotone_witness:
  "go_minutes exact_minutes \<and> (0::int) \<le> 3 * Minute \<and> 3 * Minute \<le> 30 * Minute \<and>
   spec_floor_tolerance (3 * Minute) = 160 \<and>
   calculateRatingTolerance exact_minutes (3 * Minute) = spec_floor_tolerance (3 * Minute) \<and>
   spec_floor_tolerance (30 * Minute) = 500 \<and>
   calculateRatingTolerance exact_minutes (30 * Minute) = spec_floor_tolerance (30 * Minute) \<and>
   calculateRatingTolerance exact_minutes (3 * Minute)
     \<le> calculateRatingTolerance exact_minutes (30 * Minute) \<and>
   calculateRatingTolerance exact_minutes (30 * Minute) \<le> maxRatingTolerance"
proof -
  have h: "(0::int) \<le> 3 * Minute" "3 * Minute \<le> 30 * Minute" "(0::int) \<le> 30 * Minute"
    by (simp_all add: Minute_def)
  have v: "spec_floor_tolerance (3 * Minute) = 160" "spec_floor_tolerance (30 * Minute) = 500"
    by (simp_all add: spec_floor_tolerance_def Minute_def ratingTolerance_def
        maxRatingTolerance_def)
  from C7_tolerance_is_clamped_floor_and_monotone [OF exact_minutes_go, of "3 * Minute" "30 * Minute"]
    C7_tolerance_is_clamped_floor_and_monotone [OF exact_minutes_go, of "30 * Minute" "30 * Minute"]
    h v exact_minutes_go
  show ?thesis by simp
qed



text \<open>
  Claim C9. In every hub state reached by register, unregister, join-room, leave-room and
  room-broadcast operations, every room of the registry should have at least one member,
  also after a room broadcast evicted a session whose outbound buffer was full. The code
  breaks this: \<^verbatim>\<open>broadcastToRoom\<close> deletes the evicted client from the room's map and
  leaves the room in the registry. One client registers and joins the room "r", which
  puts the join notice into its buffer; 255 room broadcasts fill the buffer of 256, and
  the next one evicts the client. The run ends without a panic in a hub whose registry
  still holds the room "r", now without a member.
\<close>

theorem C9_eviction_leaves_an_empty_room:
  "\<exists>h. run NewHub (Register 1 # Join 1 ''r'' # replicate 256 (RoomBroadcast ''r'')) = Inr h \<and>
       rooms h ''r'' = Some [] \<and> clients h = [1]"
proof -
  have r: "replicate 256 (RoomBroadcast ''r'') =
      replicate 255 (RoomBroadcast ''r'') @ [RoomBroadcast ''r'']"
    using replicate_add [of 255 1 "RoomBroadcast ''r''"] by simp
  have "run NewHub (Register 1 # Join 1 ''r'' # replicate 256 (RoomBroadcast ''r'')) =
        run (alone_in_room 1) (replicate 255 (RoomBroadcast ''r'') @ [RoomBroadcast ''r''])"
    using join_gives_alone [of "replicate 256 (RoomBroadcast ''r'')"] r by simp
  also have "\<dots> = run (alone_in_room 256) [RoomBroadcast ''r'']"
    using broadcasts_alone [of 1 255 "[RoomBroadcast ''r'']"] by simp
  finally show ?thesis by (simp add: broadcast_full del: dispatch.simps)
qed

text \<open>
  Claim C10. For every chess state \<open>s\<close> and every identifier \<open>p\<close> other than the
  state's \<^verbatim>\<open>WhitePlayer\<close>, a participant of the game or not, the engine takes \<open>p\<close> for
  black: the turn check of \<^verbatim>\<open>ValidateMove\<close> passes exactly when it is black's turn,
  the move is then validated as a move of black's pieces, and \<^verbatim>\<open>ValidateMove\<close>,
  \<^verbatim>\<open>ApplyMove\<close> and \<^verbatim>\<open>GetPossibleMoves\<close> answer any two such identifiers alike,
  so no operation rejects a non-participant as such.
\<close>

theorem C10_non_white_identifier_is_black:
  assumes "p \<noteq> WhitePlayer s"
  shows "getPlayerColor s p = ''black'' \<and>
    ChessEngine_ValidateMove s m p =
       (if cCurrentTurn s \<noteq> ''black'' then Some NotPlayersTurn
        else if cGameEnded s then Some GameAlreadyEnded
        else validateChessMove s m ''black'') \<and>
    (\<forall>q. q \<noteq> WhitePlayer s \<longrightarrow>
       ChessEngine_ValidateMove s m q = ChessEngine_ValidateMove s m p \<and>
       ChessEngine_ApplyMove s m q = ChessEngine_ApplyMove s m p \<and>
       ChessEngine_GetPossibleMoves s q = ChessEngine_GetPossibleMoves s p)"
  using assms non_white_is_black [OF assms]
  by (simp add: ChessEngine_ValidateMove_def ChessEngine_ApplyMove_def
      ChessEngine_GetPossibleMoves_def getPlayerColor_def)

theorem C10_non_white_identifier_is_black_witness:
  "(3::uuid) \<noteq> WhitePlayer example_black_to_move \<and>
   (3::uuid) \<noteq> BlackPlayer example_black_to_move \<and>
   cCurrentTurn example_black_to_move = ''black'' \<and>
   getPlayerColor example_black_to_move 3 = ''black'' \<and>
   ChessEngine_ValidateMove example_black_to_move example_black_knight_move 3 = None \<and>
   ChessEngine_ValidateMove example_black_to_move example_black_knight_move
     (BlackPlayer example_black_to_move) = None \<and>
   (\<exists>s'. ChessEngine_ApplyMove example_black_to_move example_black_knight_move 3 = Inr s' \<and>
      ChessEngine_ApplyMove example_black_to_move example_black_knight_move
        (BlackPlayer example_black_to_move) = Inr s')"
proof -
  have ne: "(3::uuid) \<noteq> WhitePlayer example_black_to_move"
    "(3::uuid) \<noteq> BlackPlayer example_black_to_move"
    "BlackPlayer example_black_to_move \<noteq> WhitePlayer example_black_to_move"
    "cCurrentTurn example_black_to_move = ''black''"
    by (simp_all add: example_black_to_move_def)
  note c = C10_non_white_identifier_is_black [OF ne(1), of example_black_knight_move]
  from chess_validated_applies [OF black_knight_validates] obtain s' where
    a: "ChessEngine_ApplyMove example_black_to_move example_black_knight_move 3 = Inr s'"
    by blast
  from c ne(3) a black_knight_validates
  have "ChessEngine_ValidateMove example_black_to_move example_black_knight_move
          (BlackPlayer example_black_to_move) = None"
    "ChessEngine_ApplyMove example_black_to_move example_black_knight_move
        (BlackPlayer example_black_to_move) = Inr s'"
    by simp_all
  with c ne a black_knight_validates show ?thesis by blast
qed

end
